theory Spec2Isabelle
  imports Complex_Main
begin

section \<open>Dense vectors and matrices\<close>

text \<open>
  The library stores every vector and matrix as a dense Eigen object of \<open>double\<close>
  coefficients whose shape is fixed by the problem dimensions. A vector is modelled
  by its size and its coefficient function, a matrix by its two extents and its
  coefficient function. Coefficients are real numbers: rounding of \<open>double\<close>
  arithmetic is not represented. Only coefficients inside the extents are meaningful;
  the operations below never read outside them when the shapes agree, which Eigen
  asserts. The type aliases \<open>mat\<close> and \<open>cvec\<close> are declared in a header that is not
  among the sources; they are taken to be Eigen matrices in Eigen's default,
  column-major storage order, which is what the two uses of \<open>Eigen::Map\<close> read.
\<close>

record cvec =
  vsize :: nat
  vcoef :: "nat \<Rightarrow> real"

record mat =
  nrows :: nat
  ncols :: nat
  coef :: "nat \<Rightarrow> nat \<Rightarrow> real"

definition empty_v :: cvec where
  "empty_v = \<lparr>vsize = 0, vcoef = (\<lambda>_. 0)\<rparr>"

definition empty_m :: mat where
  "empty_m = \<lparr>nrows = 0, ncols = 0, coef = (\<lambda>_ _. 0)\<rparr>"

definition vec_of :: "real list \<Rightarrow> cvec" where
  "vec_of xs = \<lparr>vsize = length xs, vcoef = (\<lambda>k. if k < length xs then xs ! k else 0)\<rparr>"

definition mat_of :: "nat \<Rightarrow> real list list \<Rightarrow> mat" where
  \<comment> \<open>a matrix literal given by its rows, each of length \<open>c\<close>\<close>
  "mat_of c rws = \<lparr>nrows = length rws, ncols = c,
     coef = (\<lambda>i j. if i < length rws \<and> j < length (rws ! i) then rws ! i ! j else 0)\<rparr>"

definition resize_v :: "nat \<Rightarrow> cvec \<Rightarrow> cvec" where
  \<comment> \<open>\<open>v.resize(n)\<close>: the size changes, the coefficients are left as they are found\<close>
  "resize_v n v = v\<lparr>vsize := n\<rparr>"

definition resize_m :: "nat \<Rightarrow> nat \<Rightarrow> mat \<Rightarrow> mat" where
  "resize_m r c M = M\<lparr>nrows := r, ncols := c\<rparr>"

definition setZero_v :: "cvec \<Rightarrow> cvec" where
  "setZero_v v = v\<lparr>vcoef := (\<lambda>_. 0)\<rparr>"

definition setOnes_v :: "cvec \<Rightarrow> cvec" where
  "setOnes_v v = v\<lparr>vcoef := (\<lambda>_. 1)\<rparr>"

definition setZero_m :: "mat \<Rightarrow> mat" where
  "setZero_m M = M\<lparr>coef := (\<lambda>_ _. 0)\<rparr>"

definition set_v :: "cvec \<Rightarrow> nat \<Rightarrow> real \<Rightarrow> cvec" where
  \<comment> \<open>\<open>v(i) = a\<close>\<close>
  "set_v v i a = v\<lparr>vcoef := (vcoef v)(i := a)\<rparr>"

definition set_m :: "mat \<Rightarrow> nat \<Rightarrow> nat \<Rightarrow> real \<Rightarrow> mat" where
  \<comment> \<open>\<open>M(i, j) = a\<close>\<close>
  "set_m M i j a = M\<lparr>coef := (\<lambda>r c. if r = i \<and> c = j then a else coef M r c)\<rparr>"

definition block_assign :: "mat \<Rightarrow> nat \<Rightarrow> nat \<Rightarrow> nat \<Rightarrow> nat \<Rightarrow> mat \<Rightarrow> mat" where
  \<comment> \<open>\<open>M.block(r0, c0, h, w) = S\<close>\<close>
  "block_assign M r0 c0 h w S = M\<lparr>coef := (\<lambda>r c.
     if r0 \<le> r \<and> r < r0 + h \<and> c0 \<le> c \<and> c < c0 + w then coef S (r - r0) (c - c0)
     else coef M r c)\<rparr>"

definition block :: "mat \<Rightarrow> nat \<Rightarrow> nat \<Rightarrow> nat \<Rightarrow> nat \<Rightarrow> mat" where
  \<comment> \<open>\<open>M.block(r0, c0, h, w)\<close> read as a value\<close>
  "block M r0 c0 h w = \<lparr>nrows = h, ncols = w, coef = (\<lambda>r c. coef M (r0 + r) (c0 + c))\<rparr>"

definition identity_m :: "nat \<Rightarrow> nat \<Rightarrow> mat" where
  \<comment> \<open>what \<open>setIdentity\<close> writes into an \<open>h \<times> w\<close> matrix or block\<close>
  "identity_m h w = \<lparr>nrows = h, ncols = w, coef = (\<lambda>r c. if r = c then 1 else 0)\<rparr>"

definition zero_m :: "nat \<Rightarrow> nat \<Rightarrow> mat" where
  "zero_m h w = \<lparr>nrows = h, ncols = w, coef = (\<lambda>_ _. 0)\<rparr>"

definition asDiagonal :: "cvec \<Rightarrow> mat" where
  "asDiagonal v = \<lparr>nrows = vsize v, ncols = vsize v,
     coef = (\<lambda>r c. if r = c then vcoef v r else 0)\<rparr>"

definition col :: "mat \<Rightarrow> nat \<Rightarrow> cvec" where
  "col M j = \<lparr>vsize = nrows M, vcoef = (\<lambda>r. coef M r j)\<rparr>"

definition row :: "mat \<Rightarrow> nat \<Rightarrow> cvec" where
  "row M i = \<lparr>vsize = ncols M, vcoef = (\<lambda>c. coef M i c)\<rparr>"


definition set_row :: "mat \<Rightarrow> nat \<Rightarrow> cvec \<Rightarrow> mat" where
  \<comment> \<open>\<open>M.row(i) = v.transpose()\<close>\<close>
  "set_row M i v = M\<lparr>coef := (\<lambda>r c. if r = i \<and> c < ncols M then vcoef v c else coef M r c)\<rparr>"

definition col_div :: "mat \<Rightarrow> nat \<Rightarrow> real \<Rightarrow> mat" where
  \<comment> \<open>\<open>M.col(j) /= a\<close>\<close>
  "col_div M j a = M\<lparr>coef := (\<lambda>r c. if c = j \<and> r < nrows M then coef M r c / a else coef M r c)\<rparr>"

definition transpose_m :: "mat \<Rightarrow> mat" where
  "transpose_m M = \<lparr>nrows = ncols M, ncols = nrows M, coef = (\<lambda>r c. coef M c r)\<rparr>"

definition uminus_v :: "cvec \<Rightarrow> cvec" where
  "uminus_v v = v\<lparr>vcoef := (\<lambda>k. - vcoef v k)\<rparr>"

definition uminus_m :: "mat \<Rightarrow> mat" where
  "uminus_m M = M\<lparr>coef := (\<lambda>r c. - coef M r c)\<rparr>"

definition plus_v :: "cvec \<Rightarrow> cvec \<Rightarrow> cvec" where
  "plus_v v w = v\<lparr>vcoef := (\<lambda>k. vcoef v k + vcoef w k)\<rparr>"

definition plus_m :: "mat \<Rightarrow> mat \<Rightarrow> mat" where
  "plus_m M N = M\<lparr>coef := (\<lambda>r c. coef M r c + coef N r c)\<rparr>"

definition scale_v :: "cvec \<Rightarrow> real \<Rightarrow> cvec" where
  \<comment> \<open>\<open>v * a\<close>\<close>
  "scale_v v a = v\<lparr>vcoef := (\<lambda>k. vcoef v k * a)\<rparr>"

definition mult_m :: "mat \<Rightarrow> mat \<Rightarrow> mat" where
  "mult_m M N = \<lparr>nrows = nrows M, ncols = ncols N,
     coef = (\<lambda>r c. \<Sum>k<ncols M. coef M r k * coef N k c)\<rparr>"

definition mult_v :: "mat \<Rightarrow> cvec \<Rightarrow> cvec" where
  "mult_v M v = \<lparr>vsize = nrows M, vcoef = (\<lambda>r. \<Sum>k<ncols M. coef M r k * vcoef v k)\<rparr>"

definition kroneckerProduct :: "mat \<Rightarrow> mat \<Rightarrow> mat" where
  "kroneckerProduct M N = \<lparr>nrows = nrows M * nrows N, ncols = ncols M * ncols N,
     coef = (\<lambda>r c. coef M (r div nrows N) (c div ncols N) * coef N (r mod nrows N) (c mod ncols N))\<rparr>"

definition middleRows :: "cvec \<Rightarrow> nat \<Rightarrow> nat \<Rightarrow> cvec" where
  \<comment> \<open>\<open>v.middleRows(s, n)\<close> read as a value\<close>
  "middleRows v s n = \<lparr>vsize = n, vcoef = (\<lambda>k. vcoef v (s + k))\<rparr>"

definition middleRows_m :: "mat \<Rightarrow> nat \<Rightarrow> nat \<Rightarrow> mat" where
  "middleRows_m M s n = \<lparr>nrows = n, ncols = ncols M, coef = (\<lambda>r c. coef M (s + r) c)\<rparr>"

definition middleRows_assign :: "cvec \<Rightarrow> nat \<Rightarrow> nat \<Rightarrow> cvec \<Rightarrow> cvec" where
  \<comment> \<open>\<open>v.middleRows(s, n) = w\<close>\<close>
  "middleRows_assign v s n w = v\<lparr>vcoef := (\<lambda>k.
     if s \<le> k \<and> k < s + n then vcoef w (k - s) else vcoef v k)\<rparr>"

definition middleRows_sub :: "cvec \<Rightarrow> nat \<Rightarrow> nat \<Rightarrow> cvec \<Rightarrow> cvec" where
  \<comment> \<open>\<open>v.middleRows(s, n) -= w\<close>\<close>
  "middleRows_sub v s n w = v\<lparr>vcoef := (\<lambda>k.
     if s \<le> k \<and> k < s + n then vcoef v k - vcoef w (k - s) else vcoef v k)\<rparr>"

definition comma_v :: "cvec \<Rightarrow> cvec \<Rightarrow> cvec" where
  \<comment> \<open>the comma initialiser \<open><< v, w\<close>: the two vectors one after the other\<close>
  "comma_v v w = \<lparr>vsize = vsize v + vsize w,
     vcoef = (\<lambda>k. if k < vsize v then vcoef v k else vcoef w (k - vsize v))\<rparr>"

definition Map_v :: "mat \<Rightarrow> cvec" where
  \<comment> \<open>\<open>Eigen::Map<cvec>(M.data(), M.rows() * M.cols())\<close>: the column-major storage of
      \<open>M\<close> read as one vector\<close>
  "Map_v M = \<lparr>vsize = nrows M * ncols M,
     vcoef = (\<lambda>k. coef M (k mod nrows M) (k div nrows M))\<rparr>"

definition Map_m :: "cvec \<Rightarrow> nat \<Rightarrow> nat \<Rightarrow> mat" where
  \<comment> \<open>\<open>Eigen::Map<mat>(v.data(), r, c)\<close>: a vector read as the column-major storage of
      an \<open>r \<times> c\<close> matrix\<close>
  "Map_m v r c = \<lparr>nrows = r, ncols = c, coef = (\<lambda>i j. vcoef v (j * r + i))\<rparr>"

definition has_shape :: "mat \<Rightarrow> nat \<Rightarrow> nat \<Rightarrow> bool" where
  "has_shape M r c = (nrows M = r \<and> ncols M = c)"

section \<open>Dimensions and the initialisation guard\<close>

text \<open>
  Every component derives from \<open>Common\<close>, which holds the problem dimensions and the
  guard \<open>checkOrQuit\<close>. \<open>Common.hpp\<close> is not among the sources: the record below
  holds what the components read from it, the dimensions and the initialisation
  flag.
\<close>

datatype fault =
    Quit                \<comment> \<open>\<open>checkOrQuit\<close> found the component not initialised\<close>
  | AssertFailed        \<comment> \<open>an Eigen shape or range assertion\<close>
  | InvalidDimensions   \<comment> \<open>a dimension tuple outside \<open>1 \<le> ch \<le> ph\<close>\<close>

record Dimensions =
  nx :: nat
  nu :: nat
  ndu :: nat
  ny :: nat
  ph :: nat
  ch :: nat

record Common =
  dims :: Dimensions
  isInitialized :: bool

definition checkOrQuit :: "'a Common_scheme \<Rightarrow> bool" where
  \<comment> \<open>Modelled from the spec: \<open>Common::checkOrQuit\<close> is not among the sources; it is the
      guard that lets a call proceed only on an initialised component and aborts it
      otherwise. The value is whether the call proceeds.\<close>
  "checkOrQuit c = isInitialized c"

section \<open>Control-horizon mapping (Mapping.hpp)\<close>

record Mapping = Common +
  input_scaling :: cvec
  state_scaling :: cvec
  inverse_state_scaling :: cvec
  Iz2uMat :: mat
  Iu2zMat :: mat
  Sz2uMat :: mat
  Su2zMat :: mat
  m_static :: cvec   \<comment> \<open>the function-local \<open>static cvec m\<close> of \<open>computeMapping\<close>\<close>

text \<open>
  The inner loop of \<open>computeMapping\<close>, \<open>for (int j = 0; j < m[i]; j++)\<close>, compares the
  integer counter with the \<open>double\<close> replication count.
\<close>

function z2u_replicate :: "nat \<Rightarrow> mat \<Rightarrow> real \<Rightarrow> nat \<Rightarrow> nat \<Rightarrow> mat \<times> nat \<Rightarrow> mat \<times> nat" where
  "z2u_replicate n Sz mi ix j (Iz, jx) =
     (if real j < mi
      then z2u_replicate n Sz mi ix (Suc j) (block_assign Iz jx ix n n Sz, jx + n)
      else (Iz, jx))"
  by pat_completeness auto
termination
  by (relation "measure (\<lambda>(n, Sz, mi, ix, j, s). nat \<lceil>mi\<rceil> - j)") (auto, linarith)

declare z2u_replicate.simps [simp del]

definition mapping_step :: "nat \<Rightarrow> mat \<Rightarrow> mat \<Rightarrow> cvec \<Rightarrow> nat \<Rightarrow> mat \<times> mat \<times> nat \<times> nat \<Rightarrow> mat \<times> mat \<times> nat \<times> nat" where
  \<comment> \<open>one pass of the outer loop of \<open>computeMapping\<close>, on \<open>(Iz2uMat, Iu2zMat, ix, jx)\<close>\<close>
  "mapping_step n Sz Su m i s =
     (case s of (Iz, Iu, ix, jx) \<Rightarrow>
        let Iu' = block_assign Iu ix jx n n Su;
            (Iz', jx') = z2u_replicate n Sz (vcoef m i) ix 0 (Iz, jx)
        in (Iz', Iu', ix + n, jx'))"

definition scaling_step :: "cvec \<Rightarrow> nat \<Rightarrow> mat \<times> mat \<Rightarrow> mat \<times> mat" where
  "scaling_step sc i s =
     (case s of (Sz, Su) \<Rightarrow> (set_m Sz i i (vcoef sc i), set_m Su i i (1 / vcoef sc i)))"

definition computeMapping :: "Mapping \<Rightarrow> fault + Mapping" where
  \<comment> \<open>With \<open>ch = 0\<close> the assignment to \<open>m(ch - 1)\<close> is out of range. With \<open>ch > ph\<close> the
      value of \<open>ph - ch + 1\<close> depends on the integer type that \<open>Dim::num()\<close> returns,
      which is declared in a header that is not among the sources; the model covers
      the tuples with \<open>1 \<le> ch \<le> ph\<close>, where the subtraction is exact in every
      integer type, and stops on the others.\<close>
  "computeMapping mp =
     (let d = dims mp in
      if ch d = 0 \<or> ph d < ch d then Inl InvalidDimensions
      else
        let m0 = resize_v (ch d) (m_static mp);
            m1 = fold (\<lambda>i m. set_v m i 1) [0..<ch d] m0;
            m2 = set_v m1 (ch d - 1) (real (ph d - ch d + 1));
            Iz0 = setZero_m (Iz2uMat mp);
            Iu0 = transpose_m Iz0;
            (Sz, Su) = fold (scaling_step (input_scaling mp)) [0..<nrows (Sz2uMat mp)]
                         (setZero_m (Sz2uMat mp), setZero_m (Su2zMat mp));
            (Iz, Iu, ix, jx) = fold (mapping_step (nu d) Sz Su m2) [0..<ch d] (Iz0, Iu0, 0, 0)
        in Inr (mp\<lparr>Iz2uMat := Iz, Iu2zMat := Iu, Sz2uMat := Sz, Su2zMat := Su, m_static := m2\<rparr>))"

definition Mapping_onInit :: "Mapping \<Rightarrow> fault + Mapping" where
  "Mapping_onInit mp =
     (let d = dims mp in
      computeMapping (mp\<lparr>
        Iz2uMat := resize_m (ph d * nu d) (nu d * ch d) (Iz2uMat mp),
        Iu2zMat := resize_m (nu d * ch d) (ph d * nu d) (Iu2zMat mp),
        Sz2uMat := resize_m (nu d) (nu d) (Sz2uMat mp),
        Su2zMat := resize_m (nu d) (nu d) (Su2zMat mp),
        input_scaling := setOnes_v (resize_v (nu d) (input_scaling mp)),
        state_scaling := setOnes_v (resize_v (nx d) (state_scaling mp)),
        inverse_state_scaling := setOnes_v (resize_v (nx d) (inverse_state_scaling mp))\<rparr>))"

definition Mapping_new :: Mapping where
  \<comment> \<open>a default-constructed mapping: nothing allocated, not initialised\<close>
  "Mapping_new = \<lparr>dims = \<lparr>nx = 0, nu = 0, ndu = 0, ny = 0, ph = 0, ch = 0\<rparr>,
     isInitialized = False,
     input_scaling = empty_v, state_scaling = empty_v, inverse_state_scaling = empty_v,
     Iz2uMat = empty_m, Iu2zMat = empty_m, Sz2uMat = empty_m, Su2zMat = empty_m,
     m_static = empty_v\<rparr>"

definition Mapping_initialize :: "Dimensions \<Rightarrow> Mapping \<Rightarrow> fault + Mapping" where
  \<comment> \<open>Modelled from the spec: \<open>Common::initialize\<close> is not among the sources; it stores
      the dimensions, marks the component initialised and runs \<open>onInit\<close>.\<close>
  "Mapping_initialize d mp = Mapping_onInit (mp\<lparr>dims := d, isInitialized := True\<rparr>)"

definition setInputScaling :: "Mapping \<Rightarrow> cvec \<Rightarrow> fault + Mapping" where
  "setInputScaling mp scaling =
     (if vsize scaling \<noteq> nu (dims mp) then Inl AssertFailed
      else computeMapping (mp\<lparr>input_scaling := scaling\<rparr>))"

definition setStateScaling :: "Mapping \<Rightarrow> cvec \<Rightarrow> fault + Mapping" where
  "setStateScaling mp scaling =
     (if vsize scaling \<noteq> nx (dims mp) then Inl AssertFailed
      else Inr (mp\<lparr>state_scaling := scaling,
                   inverse_state_scaling := scaling\<lparr>vcoef := (\<lambda>k. 1 / vcoef scaling k)\<rparr>\<rparr>))"

definition Mapping_allocated :: "Mapping \<Rightarrow> bool" where
  \<comment> \<open>the shapes that \<open>onInit\<close> gives the members\<close>
  "Mapping_allocated mp =
     (let d = dims mp in
      nrows (Iz2uMat mp) = ph d * nu d \<and> ncols (Iz2uMat mp) = nu d * ch d \<and>
      nrows (Sz2uMat mp) = nu d \<and> ncols (Sz2uMat mp) = nu d \<and>
      nrows (Su2zMat mp) = nu d \<and> ncols (Su2zMat mp) = nu d \<and>
      nrows (Iu2zMat mp) = nu d * ch d \<and> ncols (Iu2zMat mp) = ph d * nu d \<and>
      vsize (input_scaling mp) = nu d \<and> vsize (state_scaling mp) = nx d)"

definition unwrap_inputs :: "Mapping \<Rightarrow> cvec \<Rightarrow> mat \<Rightarrow> mat" where
  \<comment> \<open>the part of \<open>unwrapVector\<close> that fills \<open>Umat\<close>\<close>
  "unwrap_inputs mp x Umat =
     (let d = dims mp;
          u_vec = middleRows x (ph d * nx d) (nu d * ch d);
          Umv0 = resize_m (ph d + 1) (nu d) empty_m;
          tmp_mult = mult_v (Iz2uMat mp) u_vec;
          tmp_mapped = Map_m tmp_mult (nu d) (ph d);
          Umv1 = setZero_m Umv0;
          Umv2 = block_assign Umv1 0 0 (ph d) (ncols Umv1) (transpose_m tmp_mapped);
          Umv3 = set_row Umv2 (ph d) (row Umv2 (ph d - 1))
      in block_assign (setZero_m Umat) 0 0 (ph d + 1) (nu d) Umv3)"

definition unwrap_states :: "Mapping \<Rightarrow> cvec \<Rightarrow> cvec \<Rightarrow> mat \<Rightarrow> mat" where
  \<comment> \<open>the part of \<open>unwrapVector\<close> that fills \<open>Xmat\<close>\<close>
  "unwrap_states mp x x0 Xmat =
     (let d = dims mp;
          X1 = set_row (setZero_m Xmat) 0 x0;
          X2 = fold (\<lambda>i X. set_row X i (middleRows x ((i - 1) * nx d) (nx d)))
                 [1..<ph d + 1] X1
      in fold (\<lambda>i X. col_div X i (1 / vcoef (state_scaling mp) i)) [0..<ncols X2] X2)"

definition unwrapVector :: "Mapping \<Rightarrow> cvec \<Rightarrow> cvec \<Rightarrow> mat \<Rightarrow> mat \<Rightarrow> fault + (mat \<times> mat \<times> real)" where
  \<comment> \<open>\<open>Xmat\<close> and \<open>Umat\<close> are passed by reference; the result holds their new values
      and the slack. The parameter types fix the sizes of \<open>x\<close> and \<open>x0\<close> and the
      shapes of \<open>Xmat\<close> and \<open>Umat\<close>, and row \<open>ph - 1\<close> of \<open>Umv\<close> exists only when
      \<open>ph\<close> is positive.\<close>
  "unwrapVector mp x x0 Xmat Umat =
     (let d = dims mp in
      if \<not> checkOrQuit mp then Inl Quit
      else if vsize x \<noteq> ph d * nx d + nu d * ch d + 1 \<or> vsize x0 \<noteq> nx d \<or> ph d = 0 \<or>
              \<not> has_shape Xmat (ph d + 1) (nx d) \<or> \<not> has_shape Umat (ph d + 1) (nu d)
      then Inl AssertFailed
      else Inr (unwrap_states mp x x0 Xmat, unwrap_inputs mp x Umat, vcoef x (vsize x - 1)))"

section \<open>Linear problem builder (ProblemBuilder.hpp)\<close>

text \<open>
  The fields \<open>P\<close>, \<open>q\<close>, \<open>A\<close>, \<open>l\<close> and \<open>u\<close> of the nested class \<open>Problem\<close> carry the
  prefix \<open>prob_\<close> here. The sizes that the source writes out in full each time are
  named \<open>n_eq\<close>, \<open>n_ineq\<close> and \<open>n_var\<close>.
\<close>

record Problem =
  prob_P :: mat    \<comment> \<open>objective matrix \<open>P\<close>\<close>
  prob_q :: cvec   \<comment> \<open>objective vector \<open>q\<close>\<close>
  prob_A :: mat    \<comment> \<open>constraint matrix \<open>A\<close>\<close>
  prob_l :: cvec   \<comment> \<open>lower bounds \<open>l\<close>\<close>
  prob_u :: cvec   \<comment> \<open>upper bounds \<open>u\<close>\<close>

record ProblemBuilder = Common +
  ssA :: mat
  ssB :: mat
  ssC :: mat
  ssBv :: mat
  ssDv :: mat
  wOutput :: mat
  wU :: mat
  wDeltaU :: mat
  minX :: mat
  maxX :: mat
  minY :: mat
  maxY :: mat
  minU :: mat
  maxU :: mat
  mpcProblem :: Problem
  leq :: cvec
  ueq :: cvec
  lineq :: cvec
  uineq :: cvec

definition n_eq :: "Dimensions \<Rightarrow> nat" where
  \<comment> \<open>rows of the equality segment: \<open>(ph + 1) * (nu + nx)\<close>\<close>
  "n_eq d = (ph d + 1) * (nu d + nx d)"

definition n_ineq :: "Dimensions \<Rightarrow> nat" where
  \<comment> \<open>rows of the inequality segment\<close>
  "n_ineq d = ((ph d + 1) * (nu d + nx d)) + (((ph d + 1) * ny d) + (ph d * nu d))"

definition n_var :: "Dimensions \<Rightarrow> nat" where
  \<comment> \<open>number of decision variables\<close>
  "n_var d = ((ph d + 1) * (nu d + nx d)) + (ph d * nu d)"

definition ProblemBuilder_onInit :: "ProblemBuilder \<Rightarrow> ProblemBuilder" where
  "ProblemBuilder_onInit b =
     (let d = dims b; p = mpcProblem b in
      b\<lparr>ssA := setZero_m (resize_m (nu d + nx d) (nu d + nx d) (ssA b)),
        ssB := setZero_m (resize_m (nu d + nx d) (nu d) (ssB b)),
        ssC := setZero_m (resize_m (nu d + ny d) (nu d + nx d) (ssC b)),
        ssBv := setZero_m (resize_m (nu d + nx d) (ndu d) (ssBv b)),
        ssDv := setZero_m (resize_m (nu d + ny d) (ndu d) (ssDv b)),
        wOutput := setZero_m (resize_m (ny d) (ph d + 1) (wOutput b)),
        wU := setZero_m (resize_m (nu d) (ph d + 1) (wU b)),
        wDeltaU := setZero_m (resize_m (nu d) (ph d) (wDeltaU b)),
        minX := setZero_m (resize_m (nx d) (ph d + 1) (minX b)),
        maxX := setZero_m (resize_m (nx d) (ph d + 1) (maxX b)),
        minY := setZero_m (resize_m (ny d) (ph d + 1) (minY b)),
        maxY := setZero_m (resize_m (ny d) (ph d + 1) (maxY b)),
        minU := setZero_m (resize_m (nu d) (ph d) (minU b)),
        maxU := setZero_m (resize_m (nu d) (ph d) (maxU b)),
        leq := setZero_v (resize_v (n_eq d) (leq b)),
        ueq := setZero_v (resize_v (n_eq d) (ueq b)),
        lineq := setZero_v (resize_v (n_ineq d) (lineq b)),
        uineq := setZero_v (resize_v (n_ineq d) (uineq b)),
        mpcProblem := \<lparr>
          prob_P = setZero_m (resize_m (n_var d) (n_var d) (prob_P p)),
          prob_q = setZero_v (resize_v (n_var d) (prob_q p)),
          prob_A = setZero_m (resize_m (n_eq d + n_ineq d) (n_var d) (prob_A p)),
          prob_l = setZero_v (resize_v (n_eq d + n_ineq d) (prob_l p)),
          prob_u = setZero_v (resize_v (n_eq d + n_ineq d) (prob_u p))\<rparr>\<rparr>)"

definition weights_at :: "ProblemBuilder \<Rightarrow> nat \<Rightarrow> mat \<Rightarrow> mat" where
  \<comment> \<open>the two assignments to \<open>wExtendedState\<close> at horizon step \<open>i\<close>\<close>
  "weights_at b i wExt =
     (let d = dims b;
          w1 = block_assign wExt 0 0 (ny d) (ny d) (asDiagonal (col (wOutput b) i))
      in block_assign w1 (ny d) (ny d) (nu d) (nu d) (asDiagonal (col (wU b) i)))"

definition objective_step :: "ProblemBuilder \<Rightarrow> nat \<Rightarrow> mat \<times> mat \<Rightarrow> mat \<times> mat" where
  \<comment> \<open>one pass of the first loop of \<open>buildTITerms\<close>, on \<open>(wExtendedState, P)\<close>\<close>
  "objective_step b i s =
     (case s of (wExt, Pm) \<Rightarrow>
        let d = dims b;
            wExt' = weights_at b i wExt;
            P1 = block_assign Pm (i * (nu d + nx d)) (i * (nu d + nx d))
                   (nu d + nx d) (nu d + nx d)
                   (mult_m (mult_m (transpose_m (ssC b)) wExt') (ssC b));
            P2 = (if i < ph d
                  then block_assign P1 (n_eq d + i * nu d) (n_eq d + i * nu d) (nu d) (nu d)
                         (asDiagonal (col (wDeltaU b) i))
                  else P1)
        in (wExt', P2))"

definition box_step :: "ProblemBuilder \<Rightarrow> nat \<Rightarrow> cvec \<times> cvec \<Rightarrow> cvec \<times> cvec" where
  \<comment> \<open>one pass of the loop filling \<open>(eMinX, eMaxX)\<close>\<close>
  "box_step b i s =
     (case s of (eMinX, eMaxX) \<Rightarrow>
        let d = dims b;
            tmpMinU = (if i = ph d then col (minU b) (i - 1) else col (minU b) i);
            tmpMaxU = (if i = ph d then col (maxU b) (i - 1) else col (maxU b) i)
        in (middleRows_assign eMinX (i * (nu d + nx d)) (nu d + nx d)
              (comma_v (col (minX b) i) tmpMinU),
            middleRows_assign eMaxX (i * (nu d + nx d)) (nu d + nx d)
              (comma_v (col (maxX b) i) tmpMaxU)))"

definition rate_step :: "real \<Rightarrow> Dimensions \<Rightarrow> cvec \<Rightarrow> nat \<Rightarrow> cvec \<times> cvec \<Rightarrow> cvec \<times> cvec" where
  \<comment> \<open>one pass of the loop over the delta-U bounds, on \<open>(lineq, uineq)\<close>\<close>
  "rate_step infty d deltaU i s =
     (case s of (li, ui) \<Rightarrow>
        let minDeltaU = (if ch d < i then 0 else - infty);
            maxDeltaU = (if ch d < i then 0 else infty)
        in (middleRows_assign li ((n_eq d + (ph d + 1) * ny d) + i * nu d) (nu d)
              (scale_v deltaU minDeltaU),
            middleRows_assign ui ((n_eq d + (ph d + 1) * ny d) + i * nu d) (nu d)
              (scale_v deltaU maxDeltaU)))"

definition build_P :: "ProblemBuilder \<Rightarrow> mat" where
  \<comment> \<open>the part of \<open>buildTITerms\<close> commented as quadratic objective: the new value of
      \<open>mpcProblem.P\<close>\<close>
  "build_P b =
     (let d = dims b;
          wExt0 = setZero_m (resize_m (nu d + ny d) (nu d + ny d) empty_m)
      in snd (fold (objective_step b) [0..<ph d + 1]
                (wExt0, setZero_m (prob_P (mpcProblem b)))))"

definition build_Aeq :: "ProblemBuilder \<Rightarrow> mat" where
  \<comment> \<open>the part of \<open>buildTITerms\<close> commented as linear objective dynamics: the local
      \<open>Aeq\<close>\<close>
  "build_Aeq b =
     (let d = dims b;
          Aeq0 = resize_m (n_eq d) (n_var d) empty_m;
          augId = block_assign (setZero_m (resize_m (ph d + 1) (ph d + 1) empty_m))
                    1 0 (ph d) (ph d) (identity_m (ph d) (ph d));
          predHId = identity_m (ph d + 1) (ph d + 1);
          extSpaceId = identity_m (nu d + nx d) (nu d + nx d);
          Aeq1 = block_assign Aeq0 0 0 (n_eq d) (n_eq d)
                   (plus_m (kroneckerProduct predHId (uminus_m extSpaceId))
                           (kroneckerProduct augId (ssA b)));
          idenBd = block_assign (setZero_m (resize_m (ph d + 1) (ph d) empty_m))
                     1 0 (ph d) (ph d) (identity_m (ph d) (ph d))
      in block_assign Aeq1 0 (n_eq d) (n_eq d) (ph d * nu d)
           (kroneckerProduct idenBd (ssB b)))"

definition build_Aineq :: "ProblemBuilder \<Rightarrow> mat" where
  \<comment> \<open>the part of \<open>buildTITerms\<close> commented as input, state and output constraints:
      the local \<open>Aineq\<close>\<close>
  "build_Aineq b =
     (let d = dims b;
          predHId = identity_m (ph d + 1) (ph d + 1);
          Aineq0 = setZero_m (resize_m (n_ineq d) (n_var d) empty_m);
          Aineq1 = block_assign Aineq0 0 0 (n_eq d) (n_eq d) (identity_m (n_eq d) (n_eq d));
          Aineq2 = block_assign Aineq1 (n_eq d) 0 ((ph d + 1) * ny d) (n_eq d)
                     (kroneckerProduct predHId (middleRows_m (ssC b) 0 (ny d)))
      in block_assign Aineq2 (n_eq d + (ph d + 1) * ny d) (n_eq d)
           (ph d * nu d) (ph d * nu d) (identity_m (ph d * nu d) (ph d * nu d)))"

definition build_bounds :: "real \<Rightarrow> ProblemBuilder \<Rightarrow> cvec \<times> cvec" where
  \<comment> \<open>the new values of \<open>(lineq, uineq)\<close>: box bounds, output bounds, then the loop
      over the delta-U bounds\<close>
  "build_bounds infty b =
     (let d = dims b;
          eM = fold (box_step b) [0..<ph d + 1]
                 (resize_v (n_eq d) empty_v, resize_v (n_eq d) empty_v);
          lineq1 = middleRows_assign (lineq b) 0 (n_eq d) (fst eM);
          lineq2 = middleRows_assign lineq1 (n_eq d) ((ph d + 1) * ny d) (Map_v (minY b));
          uineq1 = middleRows_assign (uineq b) 0 (n_eq d) (snd eM);
          uineq2 = middleRows_assign uineq1 (n_eq d) ((ph d + 1) * ny d) (Map_v (maxY b));
          deltaU = setOnes_v (resize_v (nu d) empty_v)
      in fold (rate_step infty d deltaU) [0..<ph d] (lineq2, uineq2))"

definition build_A :: "ProblemBuilder \<Rightarrow> mat" where
  \<comment> \<open>the part of \<open>buildTITerms\<close> commented as creation of matrix A\<close>
  "build_A b =
     (let d = dims b;
          A0 = setZero_m (prob_A (mpcProblem b));
          A1 = block_assign A0 0 0 (n_eq d) (n_var d) (build_Aeq b)
      in block_assign A1 (n_eq d) 0 (n_ineq d) (n_var d) (build_Aineq b))"

definition buildTITerms :: "real \<Rightarrow> ProblemBuilder \<Rightarrow> fault + (bool \<times> ProblemBuilder)" where
  \<comment> \<open>\<open>infty\<close> stands for the constant \<open>inf\<close>, declared in a header that is not among
      the sources. With \<open>ph = 0\<close> the box loop reads column \<open>i - 1\<close> of \<open>minU\<close> at
      \<open>i = 0\<close>, which is out of range.\<close>
  "buildTITerms infty b =
     (if ph (dims b) = 0 then Inl AssertFailed
      else Inr (True, b\<lparr>mpcProblem := (mpcProblem b)\<lparr>prob_P := build_P b, prob_A := build_A b\<rparr>,
                        lineq := fst (build_bounds infty b),
                        uineq := snd (build_bounds infty b)\<rparr>))"

definition augment_model :: "ProblemBuilder \<Rightarrow> mat \<Rightarrow> mat \<Rightarrow> mat \<Rightarrow> ProblemBuilder" where
  \<comment> \<open>the block assignments of \<open>setStateModel\<close> to \<open>ssA\<close>, \<open>ssB\<close> and \<open>ssC\<close>\<close>
  "augment_model b A B C =
     (let d = dims b;
          ssA1 = block_assign (ssA b) 0 0 (nx d) (nx d) A;
          ssA2 = block_assign ssA1 0 (nx d) (nx d) (nu d) B;
          ssA3 = block_assign ssA2 (nx d) 0 (nu d) (nx d) (zero_m (nu d) (nx d));
          ssA4 = block_assign ssA3 (nx d) (nx d) (nu d) (nu d) (identity_m (nu d) (nu d));
          ssB1 = block_assign (ssB b) 0 0 (nx d) (nu d) B;
          ssB2 = block_assign ssB1 (nx d) 0 (nu d) (nu d) (identity_m (nu d) (nu d));
          ssC1 = block_assign (ssC b) 0 0 (ny d) (nx d) C;
          ssC2 = block_assign ssC1 (ny d) (nx d) (nu d) (nu d) (identity_m (nu d) (nu d))
      in b\<lparr>ssA := ssA4, ssB := ssB2, ssC := ssC2\<rparr>)"

definition setStateModel :: "real \<Rightarrow> ProblemBuilder \<Rightarrow> mat \<Rightarrow> mat \<Rightarrow> mat \<Rightarrow> fault + (bool \<times> ProblemBuilder)" where
  \<comment> \<open>the parameter types fix the shapes of the three matrices\<close>
  "setStateModel infty b A B C =
     (let d = dims b in
      if \<not> checkOrQuit b then Inl Quit
      else if \<not> (has_shape A (nx d) (nx d) \<and> has_shape B (nx d) (nu d) \<and> has_shape C (ny d) (nx d))
      then Inl AssertFailed
      else buildTITerms infty (augment_model b A B C))"

definition setExogenuosInput :: "real \<Rightarrow> ProblemBuilder \<Rightarrow> mat \<Rightarrow> mat \<Rightarrow> fault + (bool \<times> ProblemBuilder)" where
  "setExogenuosInput infty b B D =
     (let d = dims b in
      if \<not> checkOrQuit b then Inl Quit
      else if \<not> (has_shape B (nx d) (ndu d) \<and> has_shape D (ny d) (ndu d))
      then Inl AssertFailed
      else
        let ssBv1 = block_assign (setZero_m (ssBv b)) 0 0 (nx d) (ndu d) B;
            ssDv1 = block_assign (setZero_m (ssDv b)) 0 0 (ny d) (ndu d) D
        in buildTITerms infty (b\<lparr>ssBv := ssBv1, ssDv := ssDv1\<rparr>))"



definition get_step :: "ProblemBuilder \<Rightarrow> cvec \<Rightarrow> cvec \<Rightarrow> cvec \<Rightarrow> nat \<Rightarrow>
    mat \<times> cvec \<times> cvec \<times> cvec \<times> cvec \<Rightarrow> mat \<times> cvec \<times> cvec \<times> cvec \<times> cvec" where
  \<comment> \<open>one pass of the loop of \<open>get\<close>, on \<open>(wExtendedState, q, leq, lineq, uineq)\<close>\<close>
  "get_step b eRef deltaURef uMeas i s =
     (case s of (wExt, qv, le, li, ui) \<Rightarrow>
        let d = dims b;
            wExt' = weights_at b i wExt;
            q1 = middleRows_assign qv (i * (nx d + nu d)) (nx d + nu d)
                   (mult_v (mult_m (transpose_m (ssC b)) wExt')
                      (plus_v (uminus_v eRef) (mult_v (ssDv b) uMeas)));
            q2 = (if i < ph d
                  then middleRows_assign q1 (n_eq d + i * nu d) (nu d)
                         (uminus_v (mult_v (asDiagonal (col (wDeltaU b) i)) deltaURef))
                  else q1);
            le1 = (if 0 < i
                   then middleRows_assign le (i * (nx d + nu d)) (nx d + nu d)
                          (mult_v (uminus_m (ssBv b)) uMeas)
                   else le);
            li1 = middleRows_sub li ((i * ny d) + n_eq d) (ny d)
                    (mult_v (block (ssDv b) 0 0 (ny d) (ndu d)) uMeas);
            ui1 = middleRows_sub ui ((i * ny d) + n_eq d) (ny d)
                    (mult_v (block (ssDv b) 0 0 (ny d) (ndu d)) uMeas)
        in (wExt', q2, le1, li1, ui1))"

definition get_loop :: "ProblemBuilder \<Rightarrow> cvec \<Rightarrow> cvec \<Rightarrow> cvec \<Rightarrow> cvec \<Rightarrow>
    mat \<times> cvec \<times> cvec \<times> cvec \<times> cvec" where
  \<comment> \<open>the loop of \<open>get\<close> over the horizon steps, from the state in which \<open>get\<close> enters it\<close>
  "get_loop b yRef uRef deltaURef uMeas =
     (let d = dims b;
          wExt0 = setZero_m (resize_m (ny d + nu d) (ny d + nu d) empty_m);
          eRef = comma_v yRef uRef
      in fold (get_step b eRef deltaURef uMeas) [0..<ph d + 1]
           (wExt0, setZero_v (prob_q (mpcProblem b)), setZero_v (leq b), lineq b, uineq b))"

definition get :: "ProblemBuilder \<Rightarrow> cvec \<Rightarrow> cvec \<Rightarrow> cvec \<Rightarrow> cvec \<Rightarrow> cvec \<Rightarrow> cvec \<Rightarrow>
    fault + (Problem \<times> ProblemBuilder)" where
  \<comment> \<open>The result is the returned reference to \<open>mpcProblem\<close> together with the builder
      after the call. The second parameter is unnamed in the source and never read.
      The parameter types fix the sizes of the vectors that are read.\<close>
  "get b x0 u0 yRef uRef deltaURef uMeas =
     (let d = dims b in
      if vsize x0 \<noteq> nx d \<or> vsize yRef \<noteq> ny d \<or> vsize uRef \<noteq> nu d \<or>
         vsize deltaURef \<noteq> nu d \<or> vsize uMeas \<noteq> ndu d
      then Inl AssertFailed
      else
        case get_loop b yRef uRef deltaURef uMeas of
          (wExt, q1, leq1, lineq1, uineq1) \<Rightarrow>
            let leq2 = middleRows_assign leq1 0 (nx d) (uminus_v x0);
                ueq2 = leq2;
                l1 = middleRows_assign (setZero_v (prob_l (mpcProblem b))) 0 (n_eq d) leq2;
                u1 = middleRows_assign (setZero_v (prob_u (mpcProblem b))) 0 (n_eq d) ueq2;
                l2 = middleRows_assign l1 (n_eq d) (n_ineq d) lineq1;
                u2 = middleRows_assign u1 (n_eq d) (n_ineq d) uineq1;
                b' = b\<lparr>mpcProblem := (mpcProblem b)\<lparr>prob_q := q1, prob_l := l2, prob_u := u2\<rparr>,
                       leq := leq2, ueq := ueq2, lineq := lineq1, uineq := uineq1\<rparr>
            in Inr (mpcProblem b', b'))"

definition ProblemBuilder_new :: ProblemBuilder where
  \<comment> \<open>a default-constructed builder: nothing allocated, not initialised\<close>
  "ProblemBuilder_new = \<lparr>dims = \<lparr>nx = 0, nu = 0, ndu = 0, ny = 0, ph = 0, ch = 0\<rparr>,
     isInitialized = False,
     ssA = empty_m, ssB = empty_m, ssC = empty_m, ssBv = empty_m, ssDv = empty_m,
     wOutput = empty_m, wU = empty_m, wDeltaU = empty_m,
     minX = empty_m, maxX = empty_m, minY = empty_m, maxY = empty_m,
     minU = empty_m, maxU = empty_m,
     mpcProblem = \<lparr>prob_P = empty_m, prob_q = empty_v, prob_A = empty_m,
                   prob_l = empty_v, prob_u = empty_v\<rparr>,
     leq = empty_v, ueq = empty_v, lineq = empty_v, uineq = empty_v\<rparr>"

definition ProblemBuilder_initialize :: "Dimensions \<Rightarrow> ProblemBuilder \<Rightarrow> ProblemBuilder" where
  \<comment> \<open>Modelled from the spec: \<open>Common::initialize\<close> is not among the sources; it stores
      the dimensions, marks the component initialised and runs \<open>onInit\<close>.\<close>
  "ProblemBuilder_initialize d b = ProblemBuilder_onInit (b\<lparr>dims := d, isInitialized := True\<rparr>)"










section \<open>Linear front-end (LMPC.hpp)\<close>

record LMPC = Common +
  builder :: ProblemBuilder

definition setStateSpaceModel :: "real \<Rightarrow> LMPC \<Rightarrow> mat \<Rightarrow> mat \<Rightarrow> mat \<Rightarrow> fault + (bool \<times> LMPC)" where
  "setStateSpaceModel infty lm A B C =
     (if \<not> checkOrQuit lm then Inl Quit
      else case setStateModel infty (builder lm) A B C of
             Inl f \<Rightarrow> Inl f
           | Inr (ok, b') \<Rightarrow> Inr (ok, lm\<lparr>builder := b'\<rparr>))"

definition setDisturbances :: "real \<Rightarrow> mat \<Rightarrow> mat \<Rightarrow> LMPC \<Rightarrow> mat \<Rightarrow> mat \<Rightarrow> fault + (bool \<times> LMPC)" where
  \<comment> \<open>The body passes the names \<open>B\<close> and \<open>D\<close> to the builder. Neither is a parameter or
      a member declared in \<open>LMPC.hpp\<close>; whatever declares them is not among the
      sources, so the two matrices they denote are parameters of the model.\<close>
  "setDisturbances infty B D lm Bd Dd =
     (if \<not> checkOrQuit lm then Inl Quit
      else case setExogenuosInput infty (builder lm) B D of
             Inl f \<Rightarrow> Inl f
           | Inr (ok, b') \<Rightarrow> Inr (ok, lm\<lparr>builder := b'\<rparr>))"

section \<open>Nonlinear optimizer adapter (NLOptimizer.hpp)\<close>

record Result =
  cmd :: cvec
  retcode :: int
  cost :: real

text \<open>
  The inner solver is the external library behind \<open>innerOpt\<close>. Its \<open>optimize\<close> call
  either throws an exception derived from \<open>std::exception\<close>, which is what the
  handler of \<open>run\<close> catches, or returns the optimum, after which \<open>run\<close> reads the
  last optimum value and the last result code.
\<close>

datatype solver_outcome =
    Throws string
  | Optimum "real list" real int

record NLOptimizer = Common +
  last_r :: Result
  currentSlack :: real
  mapping :: Mapping

definition warm_start :: "NLOptimizer \<Rightarrow> cvec \<Rightarrow> cvec \<Rightarrow> real list" where
  \<comment> \<open>the vector \<open>optX0\<close> that \<open>run\<close> hands to the solver\<close>
  "warm_start opt x0 u0 =
     (let d = dims opt;
          nvar = (ph d * nx d) + (nu d * ch d) + 1;
          optX0 = replicate nvar 0;
          (xs1, counter) =
             fold (\<lambda>i s. fold (\<lambda>j (xs, c). (xs[c := vcoef x0 j], c + 1)) [0..<nx d] s)
               [0..<ph d] (optX0, 0);
          Umv0 = setZero_m (resize_m (ph d) (nu d) empty_m);
          Umv = fold (\<lambda>i M. fold (\<lambda>j M. set_m M i j (vcoef u0 j)) [0..<nu d] M) [0..<ph d] Umv0;
          (UmvVectorized, vec_counter) =
             fold (\<lambda>i s. fold (\<lambda>j (v, c). (set_v v c (coef Umv i j), c + 1)) [0..<nu d] s)
               [0..<ph d] (resize_v (ph d * nu d) empty_v, 0);
          res = mult_v (Iu2zMat (mapping opt)) UmvVectorized;
          (xs2, counter2) =
             fold (\<lambda>j (xs, c). (xs[c := vcoef res j], c + 1)) [0..<nu d * ch d] (xs1, counter)
      in xs2[nvar - 1 := currentSlack opt])"

definition run :: "(real list \<Rightarrow> solver_outcome) \<Rightarrow> Result \<Rightarrow> NLOptimizer \<Rightarrow> cvec \<Rightarrow> cvec \<Rightarrow>
    fault + (Result \<times> NLOptimizer)" where
  \<comment> \<open>\<open>solver\<close> is the inner solver's \<open>optimize\<close>; \<open>r_default\<close> is a default-constructed
      \<open>Result\<close>, whose constructor is declared in a header that is not among the
      sources. The accessor \<open>mapping.Iu2z()\<close> runs the guard of the mapping.\<close>
  "run solver r_default opt x0 u0 =
     (let d = dims opt in
      if \<not> checkOrQuit opt then Inl Quit
      else if vsize x0 \<noteq> nx d \<or> vsize u0 \<noteq> nu d then Inl AssertFailed
      else if \<not> checkOrQuit (mapping opt) then Inl Quit
      else
        case solver (warm_start opt x0 u0) of
          Throws e \<Rightarrow>
            let r = r_default\<lparr>cmd := cmd (last_r opt), retcode := - 1\<rparr>
            in Inr (r, opt\<lparr>last_r := r\<rparr>)
        | Optimum res c rc \<Rightarrow>
            let opt_vector = vec_of res;
                r1 = r_default\<lparr>cost := c, retcode := rc\<rparr>;
                Xmat = resize_m (ph d + 1) (nx d) empty_m;
                Umat = resize_m (ph d + 1) (nu d) empty_m
            in (case unwrapVector (mapping opt) opt_vector x0 Xmat Umat of
                  Inl f \<Rightarrow> Inl f
                | Inr (X, U, slack) \<Rightarrow>
                    let r = r1\<lparr>cmd := row U 0\<rparr>
                    in Inr (r, opt\<lparr>last_r := r, currentSlack := slack\<rparr>)))"

section \<open>Example states\<close>

definition dims_example :: Dimensions where
  "dims_example = \<lparr>nx = 2, nu = 1, ndu = 0, ny = 1, ph = 3, ch = 2\<rparr>"

definition mapping_example :: Mapping where
  \<comment> \<open>the mapping for \<open>dims_example\<close> with input scaling 2, as \<open>onInit\<close> allocates it\<close>
  "mapping_example = Mapping_new\<lparr>dims := dims_example, isInitialized := True,
     input_scaling := vec_of [2], state_scaling := vec_of [2, 4],
     inverse_state_scaling := vec_of [1 / 2, 1 / 4],
     Iz2uMat := resize_m 3 2 empty_m, Iu2zMat := resize_m 2 3 empty_m,
     Sz2uMat := resize_m 1 1 empty_m, Su2zMat := resize_m 1 1 empty_m\<rparr>"

definition dims_scenario1 :: Dimensions where
  \<comment> \<open>the dimensions of scenario 1 of the specification, with one measured disturbance\<close>
  "dims_scenario1 = \<lparr>nx = 2, nu = 1, ndu = 1, ny = 1, ph = 3, ch = 1\<rparr>"

definition builder_example :: ProblemBuilder where
  "builder_example = ProblemBuilder_initialize dims_scenario1 ProblemBuilder_new"


definition disturbed_builder :: ProblemBuilder where
  \<comment> \<open>\<open>builder_example\<close> after \<open>setExogenuosInput\<close> with \<open>Bd = 0\<close> and \<open>Dd = 1\<close>; 1000
      stands for \<open>inf\<close>\<close>
  "disturbed_builder =
     snd (projr (setExogenuosInput 1000 builder_example (mat_of 1 [[0], [0]]) (mat_of 1 [[1]])))"

definition first_get :: "fault + (Problem \<times> ProblemBuilder)" where
  "first_get = get disturbed_builder (vec_of [0, 0]) (vec_of [0]) (vec_of [0]) (vec_of [0])
                 (vec_of [0]) (vec_of [1])"

definition second_get :: "fault + (Problem \<times> ProblemBuilder)" where
  \<comment> \<open>the same call again, on the builder that the first call left\<close>
  "second_get = get (snd (projr first_get)) (vec_of [0, 0]) (vec_of [0]) (vec_of [0]) (vec_of [0])
                  (vec_of [0]) (vec_of [1])"

definition mapping_scaled :: Mapping where
  \<comment> \<open>an initialised mapping for \<open>dims_example\<close> after \<open>setStateScaling\<close> with \<open>(2, 4)\<close>\<close>
  "mapping_scaled =
     projr (setStateScaling (projr (Mapping_initialize dims_example Mapping_new)) (vec_of [2, 4]))"

definition flat_example :: cvec where
  \<comment> \<open>three state blocks \<open>(3, 5)\<close>, two control moves and the slack\<close>
  "flat_example = vec_of [3, 5, 3, 5, 3, 5, 7, 9, 1 / 2]"

definition unwrap_example :: "fault + (mat \<times> mat \<times> real)" where
  "unwrap_example = unwrapVector mapping_scaled flat_example (vec_of [1, 1])
                      (resize_m 4 2 empty_m) (resize_m 4 1 empty_m)"

definition Result_new :: Result where
  \<comment> \<open>stands for a default-constructed \<open>Result\<close>\<close>
  "Result_new = \<lparr>cmd = empty_v, retcode = 0, cost = 0\<rparr>"

definition optimizer_example :: NLOptimizer where
  \<comment> \<open>an initialised optimizer whose last command is 7\<close>
  "optimizer_example = \<lparr>dims = dims_example, isInitialized = True,
     last_r = \<lparr>cmd = vec_of [7], retcode = 1, cost = 3\<rparr>, currentSlack = 0,
     mapping = mapping_scaled\<rparr>"

definition failing_solver :: "real list \<Rightarrow> solver_outcome" where
  "failing_solver xs = Throws ''nlopt failure''"

definition lmpc_example :: LMPC where
  "lmpc_example = \<lparr>dims = dims_scenario1, isInitialized = True, builder = builder_example\<rparr>"

section \<open>Properties of the control-horizon mapping\<close>


lemma z2u_replicate_count:
  "snd (z2u_replicate n Sz (real k) ix j (Iz, jx)) = jx + (k - j) * n \<and>
   nrows (fst (z2u_replicate n Sz (real k) ix j (Iz, jx))) = nrows Iz \<and>
   ncols (fst (z2u_replicate n Sz (real k) ix j (Iz, jx))) = ncols Iz \<and>
   (\<forall>r c. coef (fst (z2u_replicate n Sz (real k) ix j (Iz, jx))) r c =
     (if jx \<le> r \<and> r < jx + (k - j) * n \<and> ix \<le> c \<and> c < ix + n
      then coef Sz ((r - jx) mod n) (c - ix) else coef Iz r c))"
proof (induction "k - j" arbitrary: j Iz jx)
  case 0
  then show ?case by (simp add: z2u_replicate.simps)
next
  case (Suc d)
  then have jk: "j < k" and d: "d = k - Suc j" by simp_all
  have kj: "(k - j) * n = n + (k - Suc j) * n"
    using jk by (metis Suc_diff_Suc mult_Suc)
  note IH = Suc.hyps(1)[OF d, of "block_assign Iz jx ix n n Sz" "jx + n"]
  have unf: "z2u_replicate n Sz (real k) ix j (Iz, jx) =
      z2u_replicate n Sz (real k) ix (Suc j) (block_assign Iz jx ix n n Sz, jx + n)"
    using jk by (subst z2u_replicate.simps) simp
  show ?case
    unfolding unf using IH
    apply (simp add: kj block_assign_def)
    apply (intro allI impI conjI)
    apply (auto simp: le_mod_geq)
    done
qed

lemma block_index_iff:
  fixes n :: nat
  assumes "0 < n"
  shows "(k * n \<le> c \<and> c < k * n + n) = (c div n = k)"
proof
  assume "k * n \<le> c \<and> c < k * n + n"
  then show "c div n = k"
    using assms by (metis div_nat_eqI mult.commute mult_Suc_right add.commute)
next
  assume "c div n = k"
  then show "k * n \<le> c \<and> c < k * n + n"
    using assms div_times_less_eq_dividend[of c n] dividend_less_div_times[of n c]
    by (auto simp: add.commute)
qed

lemma block_range_iff:
  fixes n :: nat
  assumes "0 < n"
  shows "(a * n \<le> r \<and> r < a * n + b * n) = (a \<le> r div n \<and> r div n < a + b)"
  using assms
  by (metis add_mult_distrib div_less_iff_less_mult less_eq_div_iff_mult_less_eq)

lemma block_offset_mod:
  fixes n :: nat
  assumes "a \<le> r div n"
  shows "(r - a * n) mod n = r mod n"
proof -
  have "a * n \<le> r div n * n" using assms by simp
  also have "\<dots> \<le> r" by simp
  finally have "a * n \<le> r" .
  then show ?thesis
    by (metis le_add_diff_inverse2 mod_mult_self3 mult.commute add.commute)
qed

lemma set_v_simps:
  "vsize (set_v v i a) = vsize v"
  "vcoef (set_v v i a) k = (if k = i then a else vcoef v k)"
  by (simp_all add: set_v_def)

lemma fold_set_ones:
  "vsize (fold (\<lambda>i m. set_v m i 1) [0..<k] m0) = vsize m0 \<and>
   vcoef (fold (\<lambda>i m. set_v m i 1) [0..<k] m0) i = (if i < k then 1 else vcoef m0 i)"
  by (induction k) (auto simp: set_v_def)

lemma fold_scaling_step:
  "nrows (fst (fold (scaling_step sc) [0..<k] (Sz0, Su0))) = nrows Sz0 \<and>
   ncols (fst (fold (scaling_step sc) [0..<k] (Sz0, Su0))) = ncols Sz0 \<and>
   coef (fst (fold (scaling_step sc) [0..<k] (Sz0, Su0))) r c =
     (if r = c \<and> r < k then vcoef sc r else coef Sz0 r c)"
  by (induction k) (auto simp: scaling_step_def set_m_def split: prod.splits)

lemma mapping_step_unfold:
  "mapping_step n Sz Su m i (Iz, Iu, ix, jx) =
     (fst (z2u_replicate n Sz (vcoef m i) ix 0 (Iz, jx)),
      block_assign Iu ix jx n n Su, ix + n,
      snd (z2u_replicate n Sz (vcoef m i) ix 0 (Iz, jx)))"
  by (simp add: mapping_step_def Let_def split: prod.splits)

lemma fold_mapping_step:
  assumes cnt: "\<forall>i<k. vcoef m i = real (cnt i)"
  shows "\<exists>Iz Iu. fold (mapping_step n Sz Su m) [0..<k] (Iz0, Iu0, 0, 0) =
            (Iz, Iu, k * n, (\<Sum>i<k. cnt i) * n) \<and>
          nrows Iz = nrows Iz0 \<and> ncols Iz = ncols Iz0 \<and>
          (0 < n \<longrightarrow> (\<forall>r c. coef Iz r c =
            (if c div n < k \<and> (\<Sum>i<c div n. cnt i) \<le> r div n \<and>
                r div n < (\<Sum>i<c div n. cnt i) + cnt (c div n)
             then coef Sz (r mod n) (c mod n) else coef Iz0 r c)))"
  using cnt
proof (induction k)
  case 0
  then show ?case by simp
next
  case (Suc k)
  then obtain Iz Iu where st: "fold (mapping_step n Sz Su m) [0..<k] (Iz0, Iu0, 0, 0) =
            (Iz, Iu, k * n, (\<Sum>i<k. cnt i) * n)"
    and sh: "nrows Iz = nrows Iz0" "ncols Iz = ncols Iz0"
    and co: "0 < n \<Longrightarrow> coef Iz r c =
            (if c div n < k \<and> (\<Sum>i<c div n. cnt i) \<le> r div n \<and>
                r div n < (\<Sum>i<c div n. cnt i) + cnt (c div n)
             then coef Sz (r mod n) (c mod n) else coef Iz0 r c)" for r c
    by auto
  have mk: "vcoef m k = real (cnt k)" using Suc.prems by simp
  let ?R = "z2u_replicate n Sz (real (cnt k)) (k * n) 0 (Iz, (\<Sum>i<k. cnt i) * n)"
  note R = z2u_replicate_count[of n Sz "cnt k" "k * n" 0 Iz "(\<Sum>i<k. cnt i) * n"]
  have step: "fold (mapping_step n Sz Su m) [0..<Suc k] (Iz0, Iu0, 0, 0) =
      (fst ?R, block_assign Iu (k * n) ((\<Sum>i<k. cnt i) * n) n n Su, Suc k * n,
       (\<Sum>i<Suc k. cnt i) * n)"
    using R by (simp add: st mapping_step_unfold mk add_mult_distrib)
  have coefR: "coef (fst ?R) r c =
            (if c div n < Suc k \<and> (\<Sum>i<c div n. cnt i) \<le> r div n \<and>
                r div n < (\<Sum>i<c div n. cnt i) + cnt (c div n)
             then coef Sz (r mod n) (c mod n) else coef Iz0 r c)" if n: "0 < n" for r c
  proof (cases "c div n = k")
    case True
    then have cm: "c - k * n = c mod n"
      by (metis minus_mult_div_eq_mod mult.commute)
    show ?thesis
      using R True n
      by (simp add: block_index_iff block_range_iff co cm block_offset_mod)
  next
    case False
    then show ?thesis
      using R n by (auto simp: block_index_iff co)
  qed
  show ?case
    using step R sh coefR by auto
qed


text \<open>
  C1. For a dimension tuple with \<open>1 \<le> ch \<le> ph\<close> and an allocated mapping,
  \<open>computeMapping\<close> returns; the replication counts \<open>m\<close> have length \<open>ch\<close>, every
  entry is 1 except the last, which is \<open>ph - ch + 1\<close>, and they sum to \<open>ph\<close>;
  \<open>Iz2u\<close> has shape \<open>(ph \<cdot> nu) \<times> (ch \<cdot> nu)\<close>; and its block in block-row \<open>rb\<close> and
  block-column \<open>j\<close> is the scaled identity when \<open>rb\<close> lies in the \<open>m[j]\<close> block-rows
  that start at the running sum of the earlier counts, and zero otherwise. The
  input scaling may be any vector.
\<close>

theorem computeMapping_replication:
  assumes ch1: "1 \<le> ch (dims mp)" and chph: "ch (dims mp) \<le> ph (dims mp)"
    and al: "Mapping_allocated mp"
  shows "\<exists>mp'. computeMapping mp = Inr mp' \<and>
     vsize (m_static mp') = ch (dims mp) \<and>
     (\<forall>i<ch (dims mp). vcoef (m_static mp') i =
        (if i = ch (dims mp) - 1 then real (ph (dims mp) - ch (dims mp) + 1) else 1)) \<and>
     (\<Sum>i<ch (dims mp). vcoef (m_static mp') i) = real (ph (dims mp)) \<and>
     nrows (Iz2uMat mp') = ph (dims mp) * nu (dims mp) \<and>
     ncols (Iz2uMat mp') = ch (dims mp) * nu (dims mp) \<and>
     (\<forall>j<ch (dims mp). \<forall>rb<ph (dims mp). \<forall>a<nu (dims mp). \<forall>b<nu (dims mp).
        coef (Iz2uMat mp') (rb * nu (dims mp) + a) (j * nu (dims mp) + b) =
          (if (\<Sum>i<j. vcoef (m_static mp') i) \<le> real rb \<and>
              real rb < (\<Sum>i<j. vcoef (m_static mp') i) + vcoef (m_static mp') j
           then (if a = b then vcoef (input_scaling mp) a else 0) else 0))"
proof -
  define C where "C = ch (dims mp)"
  define H where "H = ph (dims mp)"
  define n where "n = nu (dims mp)"
  define cnt where "cnt = (\<lambda>i. if i = C - 1 then H - C + 1 else (1::nat))"
  define m2 where "m2 = set_v (fold (\<lambda>i m. set_v m i 1) [0..<C] (resize_v C (m_static mp)))
                          (C - 1) (real (H - C + 1))"
  define Sz where "Sz = fst (fold (scaling_step (input_scaling mp)) [0..<nrows (Sz2uMat mp)]
                         (setZero_m (Sz2uMat mp), setZero_m (Su2zMat mp)))"
  define Su where "Su = snd (fold (scaling_step (input_scaling mp)) [0..<nrows (Sz2uMat mp)]
                         (setZero_m (Sz2uMat mp), setZero_m (Su2zMat mp)))"
  define Iz0 where "Iz0 = setZero_m (Iz2uMat mp)"
  have C1: "1 \<le> C" and CH: "C \<le> H" using ch1 chph by (simp_all add: C_def H_def)
  have m2v: "vcoef m2 i = real (cnt i)" if "i < C" for i
    using that by (simp add: m2_def cnt_def set_v_simps fold_set_ones)
  have m2s: "vsize m2 = C"
    by (simp add: m2_def set_v_simps fold_set_ones resize_v_def)
  have sum_real: "(\<Sum>i<j. vcoef m2 i) = real (\<Sum>i<j. cnt i)" if "j \<le> C" for j
    using that by (simp add: m2v)
  have cnt_pre: "(\<Sum>i<j. cnt i) = j" if "j < C" for j
  proof -
    have "(\<Sum>i<j. cnt i) = (\<Sum>i<j. 1)"
      using that by (intro sum.cong) (auto simp: cnt_def)
    then show ?thesis by simp
  qed
  have cnt_all: "(\<Sum>i<C. cnt i) = H"
  proof -
    obtain c' where c': "C = Suc c'" using C1 by (cases C) auto
    have "(\<Sum>i<C. cnt i) = (\<Sum>i<c'. cnt i) + cnt c'" by (simp add: c')
    also have "\<dots> = c' + (H - C + 1)" using cnt_pre[of c'] by (simp add: c' cnt_def)
    also have "\<dots> = H" using CH by (simp add: c')
    finally show ?thesis .
  qed
  obtain Iz Iu where st: "fold (mapping_step n Sz Su m2) [0..<C] (Iz0, transpose_m Iz0, 0, 0) =
            (Iz, Iu, C * n, (\<Sum>i<C. cnt i) * n)"
    and sh: "nrows Iz = nrows Iz0" "ncols Iz = ncols Iz0"
    and co: "0 < n \<Longrightarrow> coef Iz r c =
            (if c div n < C \<and> (\<Sum>i<c div n. cnt i) \<le> r div n \<and>
                r div n < (\<Sum>i<c div n. cnt i) + cnt (c div n)
             then coef Sz (r mod n) (c mod n) else coef Iz0 r c)" for r c
    using fold_mapping_step[of C m2 cnt n Sz Su Iz0 "transpose_m Iz0"] m2v by auto
  define mp' where "mp' = mp\<lparr>Iz2uMat := Iz, Iu2zMat := Iu, Sz2uMat := Sz, Su2zMat := Su,
                               m_static := m2\<rparr>"
  have res: "computeMapping mp = Inr mp'"
    unfolding computeMapping_def Let_def case_prod_beta C_def[symmetric] H_def[symmetric]
      n_def[symmetric] m2_def[symmetric] Iz0_def[symmetric] Sz_def[symmetric]
      Su_def[symmetric] st
    using C1 CH by (simp add: mp'_def)
  have Szc: "coef Sz a b = (if a = b then vcoef (input_scaling mp) a else 0)"
    if "a < n" "b < n" for a b
    using that al
    by (simp add: Sz_def fold_scaling_step Mapping_allocated_def Let_def n_def setZero_m_def)
  have shape: "nrows Iz = H * n" "ncols Iz = C * n"
    using al sh
    by (simp_all add: Iz0_def setZero_m_def Mapping_allocated_def Let_def H_def C_def n_def
          mult.commute)
  have blocks: "coef Iz (rb * n + a) (j * n + b) =
          (if (\<Sum>i<j. vcoef m2 i) \<le> real rb \<and> real rb < (\<Sum>i<j. vcoef m2 i) + vcoef m2 j
           then (if a = b then vcoef (input_scaling mp) a else 0) else 0)"
    if "j < C" "rb < H" "a < n" "b < n" for j rb a b
  proof -
    have n: "0 < n" using that by simp
    have dm: "(rb * n + a) div n = rb" "(rb * n + a) mod n = a"
             "(j * n + b) div n = j" "(j * n + b) mod n = b"
      using that by simp_all
    have sr: "(\<Sum>i<j. real (cnt i)) = real (\<Sum>i<j. cnt i)" by simp
    have e1: "((\<Sum>i<j. real (cnt i)) \<le> real rb) = ((\<Sum>i<j. cnt i) \<le> rb)"
      unfolding sr by (rule of_nat_le_iff)
    have e2: "(real rb < (\<Sum>i<j. real (cnt i)) + real (cnt j)) = (rb < (\<Sum>i<j. cnt i) + cnt j)"
      unfolding sr by (metis of_nat_add of_nat_less_iff)
    show ?thesis
      using that e1 e2 co[OF n, of "rb * n + a" "j * n + b"] Szc[of a b]
      by (simp add: dm sum_real m2v Iz0_def setZero_m_def)
  qed
  have "vsize (m_static mp') = C" by (simp add: mp'_def m2s)
  moreover have "\<forall>i<C. vcoef (m_static mp') i = (if i = C - 1 then real (H - C + 1) else 1)"
    by (simp add: mp'_def m2v cnt_def)
  moreover have "(\<Sum>i<C. vcoef (m_static mp') i) = real H"
    by (simp add: mp'_def sum_real cnt_all)
  moreover have "nrows (Iz2uMat mp') = H * n" "ncols (Iz2uMat mp') = C * n"
    by (simp_all add: mp'_def shape)
  moreover have "\<forall>j<C. \<forall>rb<H. \<forall>a<n. \<forall>b<n.
        coef (Iz2uMat mp') (rb * n + a) (j * n + b) =
          (if (\<Sum>i<j. vcoef (m_static mp') i) \<le> real rb \<and>
              real rb < (\<Sum>i<j. vcoef (m_static mp') i) + vcoef (m_static mp') j
           then (if a = b then vcoef (input_scaling mp) a else 0) else 0)"
    using blocks by (simp add: mp'_def)
  ultimately show ?thesis
    using res unfolding C_def H_def n_def by blast
qed

lemma Mapping_onInit_allocated:
  "\<exists>mp0. Mapping_onInit mp = computeMapping mp0 \<and> Mapping_allocated mp0 \<and> dims mp0 = dims mp"
  unfolding Mapping_onInit_def Let_def
  by (rule exI, rule conjI, rule refl)
     (simp add: Mapping_allocated_def resize_m_def resize_v_def setOnes_v_def)

theorem computeMapping_replication_witness:
  "\<exists>mp'. computeMapping mapping_example = Inr mp' \<and>
     vsize (m_static mp') = 2 \<and>
     vcoef (m_static mp') 0 = 1 \<and> vcoef (m_static mp') 1 = 2 \<and>
     nrows (Iz2uMat mp') = 3 \<and> ncols (Iz2uMat mp') = 2 \<and>
     coef (Iz2uMat mp') 0 0 = 2 \<and> coef (Iz2uMat mp') 1 0 = 0 \<and>
     coef (Iz2uMat mp') 1 1 = 2 \<and> coef (Iz2uMat mp') 2 1 = 2"
proof -
  have d: "dims mapping_example = dims_example"
    by (simp add: mapping_example_def Mapping_new_def)
  have h1: "1 \<le> ch (dims mapping_example)" "ch (dims mapping_example) \<le> ph (dims mapping_example)"
    by (simp_all add: d dims_example_def)
  have h3: "Mapping_allocated mapping_example"
    by (simp add: Mapping_allocated_def mapping_example_def dims_example_def Mapping_new_def
        resize_m_def empty_m_def vec_of_def)
  have sc: "vcoef (input_scaling mapping_example) 0 = 2"
    by (simp add: mapping_example_def Mapping_new_def vec_of_def)
  from computeMapping_replication[OF h1 h3]
  obtain mp' where r: "computeMapping mapping_example = Inr mp'"
    and s: "vsize (m_static mp') = ch dims_example"
    and m: "\<forall>i<ch dims_example. vcoef (m_static mp') i =
        (if i = ch dims_example - 1 then real (ph dims_example - ch dims_example + 1) else 1)"
    and sh: "nrows (Iz2uMat mp') = ph dims_example * nu dims_example"
            "ncols (Iz2uMat mp') = ch dims_example * nu dims_example"
    and bl: "\<forall>j<ch dims_example. \<forall>rb<ph dims_example. \<forall>a<nu dims_example. \<forall>b<nu dims_example.
        coef (Iz2uMat mp') (rb * nu dims_example + a) (j * nu dims_example + b) =
          (if (\<Sum>i<j. vcoef (m_static mp') i) \<le> real rb \<and>
              real rb < (\<Sum>i<j. vcoef (m_static mp') i) + vcoef (m_static mp') j
           then (if a = b then vcoef (input_scaling mapping_example) a else 0) else 0)"
    unfolding d by blast
  have m0: "vcoef (m_static mp') 0 = 1" and m1: "vcoef (m_static mp') 1 = 2"
    using m by (simp_all add: dims_example_def)
  have m1': "vcoef (m_static mp') (Suc 0) = 2" using m1 by simp
  have s1: "(\<Sum>i<Suc 0. vcoef (m_static mp') i) = 1" by (simp add: m0)
  have e: "coef (Iz2uMat mp') rb j =
          (if (\<Sum>i<j. vcoef (m_static mp') i) \<le> real rb \<and>
              real rb < (\<Sum>i<j. vcoef (m_static mp') i) + vcoef (m_static mp') j
           then 2 else 0)" if "j < 2" "rb < 3" for j rb
    using bl[rule_format, of j rb 0 0] that by (simp add: dims_example_def sc)
  have "coef (Iz2uMat mp') 0 0 = 2" "coef (Iz2uMat mp') 1 0 = 0"
       "coef (Iz2uMat mp') 1 1 = 2" "coef (Iz2uMat mp') 2 1 = 2"
    using e[of 0 0] e[of 0 1] e[of 1 1] e[of 1 2] by (simp_all add: m0 m1' s1)
  then show ?thesis using r s m0 m1 sh by (simp add: dims_example_def)
qed

subsection \<open>Unwrapping the flat decision vector\<close>

lemma block_assign_simps:
  "nrows (block_assign M r0 c0 h w S) = nrows M"
  "ncols (block_assign M r0 c0 h w S) = ncols M"
  "coef (block_assign M r0 c0 h w S) r c =
     (if r0 \<le> r \<and> r < r0 + h \<and> c0 \<le> c \<and> c < c0 + w then coef S (r - r0) (c - c0)
      else coef M r c)"
  by (simp_all add: block_assign_def)

lemma set_row_simps:
  "nrows (set_row M i v) = nrows M" "ncols (set_row M i v) = ncols M"
  "coef (set_row M i v) r c = (if r = i \<and> c < ncols M then vcoef v c else coef M r c)"
  by (simp_all add: set_row_def)

lemma col_div_simps:
  "nrows (col_div M j a) = nrows M" "ncols (col_div M j a) = ncols M"
  "coef (col_div M j a) r c = (if c = j \<and> r < nrows M then coef M r c / a else coef M r c)"
  by (simp_all add: col_div_def)

lemma fold_set_row:
  "nrows (fold (\<lambda>i X. set_row X i (f i)) [Suc 0..<k] X1) = nrows X1 \<and>
   ncols (fold (\<lambda>i X. set_row X i (f i)) [Suc 0..<k] X1) = ncols X1 \<and>
   coef (fold (\<lambda>i X. set_row X i (f i)) [Suc 0..<k] X1) r c =
     (if Suc 0 \<le> r \<and> r < k \<and> c < ncols X1 then vcoef (f r) c else coef X1 r c)"
proof (induction k)
  case 0
  then show ?case by simp
next
  case (Suc k)
  show ?case
  proof (cases "Suc 0 \<le> k")
    case True
    then have "[Suc 0..<Suc k] = [Suc 0..<k] @ [k]" by simp
    then show ?thesis using Suc True by (auto simp: set_row_simps)
  next
    case False
    then show ?thesis by simp
  qed
qed

lemma fold_col_div:
  "nrows (fold (\<lambda>i X. col_div X i (g i)) [0..<k] X2) = nrows X2 \<and>
   ncols (fold (\<lambda>i X. col_div X i (g i)) [0..<k] X2) = ncols X2 \<and>
   coef (fold (\<lambda>i X. col_div X i (g i)) [0..<k] X2) r c =
     (if c < k \<and> r < nrows X2 then coef X2 r c / g c else coef X2 r c)"
  by (induction k) (auto simp: col_div_simps)

lemma unwrap_states_entries:
  assumes "has_shape Xmat (ph (dims mp) + 1) (nx (dims mp))"
  shows "has_shape (unwrap_states mp x x0 Xmat) (ph (dims mp) + 1) (nx (dims mp))"
    and "j < nx (dims mp) \<Longrightarrow>
           coef (unwrap_states mp x x0 Xmat) 0 j = vcoef x0 j / (1 / vcoef (state_scaling mp) j)"
    and "1 \<le> i \<Longrightarrow> i \<le> ph (dims mp) \<Longrightarrow> j < nx (dims mp) \<Longrightarrow>
           coef (unwrap_states mp x x0 Xmat) i j =
             vcoef x ((i - 1) * nx (dims mp) + j) / (1 / vcoef (state_scaling mp) j)"
  using assms
  by (simp_all add: unwrap_states_def Let_def fold_col_div fold_set_row set_row_simps
        setZero_m_def has_shape_def middleRows_def del: upt_Suc)

lemma unwrap_inputs_entries:
  assumes "has_shape Umat (ph (dims mp) + 1) (nu (dims mp))" "0 < ph (dims mp)"
  shows "has_shape (unwrap_inputs mp x Umat) (ph (dims mp) + 1) (nu (dims mp))"
    and "i < ph (dims mp) \<Longrightarrow> j < nu (dims mp) \<Longrightarrow>
           coef (unwrap_inputs mp x Umat) i j =
             vcoef (mult_v (Iz2uMat mp)
                     (middleRows x (ph (dims mp) * nx (dims mp)) (nu (dims mp) * ch (dims mp))))
               (i * nu (dims mp) + j)"
    and "j < nu (dims mp) \<Longrightarrow>
           coef (unwrap_inputs mp x Umat) (ph (dims mp)) j =
           coef (unwrap_inputs mp x Umat) (ph (dims mp) - 1) j"
  using assms
  by (auto simp: unwrap_inputs_def Let_def block_assign_simps set_row_simps setZero_m_def
        resize_m_def has_shape_def transpose_m_def Map_m_def row_def)

lemma unwrapVector_returns:
  assumes "isInitialized mp"
    and "vsize x = ph (dims mp) * nx (dims mp) + nu (dims mp) * ch (dims mp) + 1"
    and "vsize x0 = nx (dims mp)" "0 < ph (dims mp)"
    and "has_shape Xmat (ph (dims mp) + 1) (nx (dims mp))"
    and "has_shape Umat (ph (dims mp) + 1) (nu (dims mp))"
  shows "unwrapVector mp x x0 Xmat Umat =
     Inr (unwrap_states mp x x0 Xmat, unwrap_inputs mp x Umat,
          vcoef x (ph (dims mp) * nx (dims mp) + nu (dims mp) * ch (dims mp)))"
  using assms by (simp add: unwrapVector_def Let_def checkOrQuit_def)

text \<open>
  C5, as the code has it. For an initialised mapping with a positive prediction
  horizon, a flat vector of length \<open>ph \<cdot> nx + ch \<cdot> nu + 1\<close>, an \<open>x0\<close> of length \<open>nx\<close>
  and matrices of the shapes of their types, \<open>unwrapVector\<close> returns. Row 0 of the
  state trajectory holds \<open>x0\<close> and rows \<open>1..ph\<close> hold the \<open>nx\<close>-blocks of the flat
  vector, and in every row, row 0 included, column \<open>j\<close> is divided by
  \<open>1 / state_scaling(j)\<close>, which multiplies it by the state scaling. The input
  trajectory is \<open>Iz2u\<close> times the control-horizon moves, read as \<open>ph\<close> rows of \<open>nu\<close>
  entries, with row \<open>ph\<close> a copy of row \<open>ph - 1\<close>. The slack is the last scalar of the
  flat vector.
\<close>

theorem unwrapVector_trajectories:
  assumes init: "isInitialized mp"
    and sx: "vsize x = ph (dims mp) * nx (dims mp) + nu (dims mp) * ch (dims mp) + 1"
    and sx0: "vsize x0 = nx (dims mp)"
    and ph: "0 < ph (dims mp)"
    and shX: "has_shape Xmat (ph (dims mp) + 1) (nx (dims mp))"
    and shU: "has_shape Umat (ph (dims mp) + 1) (nu (dims mp))"
  shows "\<exists>X U s. unwrapVector mp x x0 Xmat Umat = Inr (X, U, s) \<and>
     has_shape X (ph (dims mp) + 1) (nx (dims mp)) \<and> has_shape U (ph (dims mp) + 1) (nu (dims mp)) \<and>
     (\<forall>j<nx (dims mp). coef X 0 j = vcoef x0 j / (1 / vcoef (state_scaling mp) j) \<and>
                        coef X 0 j = vcoef x0 j * vcoef (state_scaling mp) j) \<and>
     (\<forall>i j. 1 \<le> i \<and> i \<le> ph (dims mp) \<and> j < nx (dims mp) \<longrightarrow>
        coef X i j = vcoef x ((i - 1) * nx (dims mp) + j) / (1 / vcoef (state_scaling mp) j) \<and>
        coef X i j = vcoef x ((i - 1) * nx (dims mp) + j) * vcoef (state_scaling mp) j) \<and>
     (\<forall>i<ph (dims mp). \<forall>j<nu (dims mp).
        coef U i j = vcoef (mult_v (Iz2uMat mp)
                        (middleRows x (ph (dims mp) * nx (dims mp)) (nu (dims mp) * ch (dims mp))))
                       (i * nu (dims mp) + j)) \<and>
     (\<forall>j<nu (dims mp). coef U (ph (dims mp)) j = coef U (ph (dims mp) - 1) j) \<and>
     s = vcoef x (ph (dims mp) * nx (dims mp) + nu (dims mp) * ch (dims mp))"
proof -
  note R = unwrapVector_returns[OF assms]
  note X = unwrap_states_entries[OF shX]
  note U = unwrap_inputs_entries[OF shU ph]
  have "\<forall>j<nx (dims mp).
          coef (unwrap_states mp x x0 Xmat) 0 j = vcoef x0 j / (1 / vcoef (state_scaling mp) j) \<and>
          coef (unwrap_states mp x x0 Xmat) 0 j = vcoef x0 j * vcoef (state_scaling mp) j"
    by (simp add: X(2))
  moreover have "\<forall>i j. 1 \<le> i \<and> i \<le> ph (dims mp) \<and> j < nx (dims mp) \<longrightarrow>
        coef (unwrap_states mp x x0 Xmat) i j =
          vcoef x ((i - 1) * nx (dims mp) + j) / (1 / vcoef (state_scaling mp) j) \<and>
        coef (unwrap_states mp x x0 Xmat) i j =
          vcoef x ((i - 1) * nx (dims mp) + j) * vcoef (state_scaling mp) j"
    by (simp add: X(3))
  moreover have "\<forall>i<ph (dims mp). \<forall>j<nu (dims mp).
        coef (unwrap_inputs mp x Umat) i j = vcoef (mult_v (Iz2uMat mp)
                        (middleRows x (ph (dims mp) * nx (dims mp)) (nu (dims mp) * ch (dims mp))))
                       (i * nu (dims mp) + j)"
    by (simp add: U(2))
  moreover have "\<forall>j<nu (dims mp). coef (unwrap_inputs mp x Umat) (ph (dims mp)) j =
        coef (unwrap_inputs mp x Umat) (ph (dims mp) - 1) j"
    using U(3) by blast
  ultimately show ?thesis
    using R X(1) U(1) by blast
qed

section \<open>Properties of the linear problem builder\<close>

subsection \<open>Coefficients after an assignment\<close>

lemma middleRows_assign_simps:
  "vsize (middleRows_assign v s n w) = vsize v"
  "vcoef (middleRows_assign v s n w) k = (if s \<le> k \<and> k < s + n then vcoef w (k - s) else vcoef v k)"
  by (simp_all add: middleRows_assign_def)

lemma nx_le_n_eq: "nx d \<le> n_eq d"
  by (simp add: n_eq_def)

lemma block_le_later:
  fixes n :: nat
  assumes "i < k" "j < n"
  shows "i * n + j < k * n"
proof -
  have "i * n + j < Suc i * n" using assms by simp
  also have "\<dots> \<le> k * n" using assms by (intro mult_le_mono1) simp
  finally show ?thesis .
qed

subsection \<open>The bounds of the equality segment\<close>

text \<open>
  C3. For every call of \<open>get\<close> whose vectors have the sizes of their types, the call
  returns; the first \<open>nx\<close> rows of \<open>l\<close> and of \<open>u\<close> are \<open>-x0\<close>; and on the first
  \<open>(ph + 1) \<cdot> (nx + nu)\<close> rows, the equality segment, \<open>l\<close> and \<open>u\<close> coincide. The
  function has no initialisation guard, so the builder may be any builder.
\<close>

theorem get_equality_bounds:
  assumes "vsize x0 = nx (dims b)" "vsize yRef = ny (dims b)" "vsize uRef = nu (dims b)"
    "vsize deltaURef = nu (dims b)" "vsize uMeas = ndu (dims b)"
  shows "\<exists>p b'. get b x0 u0 yRef uRef deltaURef uMeas = Inr (p, b') \<and>
     (\<forall>k<nx (dims b). vcoef (prob_l p) k = - vcoef x0 k \<and> vcoef (prob_u p) k = - vcoef x0 k) \<and>
     (\<forall>k<n_eq (dims b). vcoef (prob_l p) k = vcoef (prob_u p) k)"
  using assms nx_le_n_eq[of "dims b"]
  by (simp add: get_def Let_def case_prod_beta middleRows_assign_simps uminus_v_def)

subsection \<open>The unused argument of get\<close>

text \<open>
  C10. The second argument of \<open>get\<close> has no influence: for any two values of it,
  the returned problem and the builder after the call are the same.
\<close>

theorem get_ignores_u0:
  "get b x0 u0a yRef uRef deltaURef uMeas = get b x0 u0b yRef uRef deltaURef uMeas"
  by (simp add: get_def)

subsection \<open>The delta-U bounds\<close>

lemma fold_rate_step:
  assumes "i < k" "j < nu d"
  shows "vcoef (fst (fold (rate_step infty d (setOnes_v (resize_v (nu d) empty_v))) [0..<k] (li, ui)))
           ((n_eq d + (ph d + 1) * ny d) + i * nu d + j) = (if ch d < i then 0 else - infty) \<and>
         vcoef (snd (fold (rate_step infty d (setOnes_v (resize_v (nu d) empty_v))) [0..<k] (li, ui)))
           ((n_eq d + (ph d + 1) * ny d) + i * nu d + j) = (if ch d < i then 0 else infty)"
  using assms
proof (induction k)
  case 0
  then show ?case by simp
next
  case (Suc k)
  show ?case
  proof (cases "i = k")
    case True
    then show ?thesis
      using Suc.prems
      by (simp add: rate_step_def case_prod_beta middleRows_assign_simps scale_v_def setOnes_v_def)
  next
    case False
    then have ik: "i < k" using Suc.prems by simp
    have lt: "i * nu d + j < k * nu d" using ik Suc.prems by (intro block_le_later)
    show ?thesis
      using Suc.IH[OF ik Suc.prems(2)] lt
      by (simp add: rate_step_def case_prod_beta middleRows_assign_simps)
  qed
qed

text \<open>
  C4. After \<open>buildTITerms\<close>, for every horizon step \<open>i < ph\<close> and every input channel
  \<open>j < nu\<close>, the delta-U row of step \<open>i\<close> has lower bound 0 and upper bound 0 when
  \<open>i > ch\<close>, and lower bound \<open>-inf\<close> and upper bound \<open>inf\<close> otherwise; so, \<open>inf\<close> not
  being 0, the row is \<open>[0, 0]\<close> exactly when \<open>i > ch\<close>.
\<close>

theorem buildTITerms_rate_bounds:
  assumes "i < ph (dims b)" "j < nu (dims b)"
  shows "\<exists>b'. buildTITerms infty b = Inr (True, b') \<and>
     vcoef (lineq b') ((n_eq (dims b) + (ph (dims b) + 1) * ny (dims b)) + i * nu (dims b) + j) =
        (if ch (dims b) < i then 0 else - infty) \<and>
     vcoef (uineq b') ((n_eq (dims b) + (ph (dims b) + 1) * ny (dims b)) + i * nu (dims b) + j) =
        (if ch (dims b) < i then 0 else infty) \<and>
     (infty \<noteq> 0 \<longrightarrow>
        (vcoef (lineq b') ((n_eq (dims b) + (ph (dims b) + 1) * ny (dims b)) + i * nu (dims b) + j) = 0 \<and>
         vcoef (uineq b') ((n_eq (dims b) + (ph (dims b) + 1) * ny (dims b)) + i * nu (dims b) + j) = 0)
        = (ch (dims b) < i))"
proof -
  have ph0: "ph (dims b) \<noteq> 0" using assms by simp
  show ?thesis
    using ph0 fold_rate_step[OF assms, of infty]
    by (simp add: buildTITerms_def build_bounds_def Let_def)
qed

subsection \<open>The augmented model\<close>













lemma get_returns:
  assumes "vsize x0 = nx (dims b)" "vsize yRef = ny (dims b)" "vsize uRef = nu (dims b)"
    "vsize deltaURef = nu (dims b)" "vsize uMeas = ndu (dims b)"
  shows "\<exists>p b'. get b x0 u0 yRef uRef deltaURef uMeas = Inr (p, b')"
  using assms by (simp add: get_def Let_def case_prod_beta)




subsection \<open>The objective matrix\<close>


















section \<open>Properties of the nonlinear optimizer adapter\<close>

text \<open>
  C6. For an initialised optimizer with an initialised mapping and vectors of the
  sizes of their types, whenever the inner solver's \<open>optimize\<close> throws on the warm
  start that \<open>run\<close> hands it, \<open>run\<close> returns normally: the command of the result is
  the previously stored command, the return code is \<open>-1\<close>, and the result becomes the
  stored last result.
\<close>

theorem run_solver_failure_holds_command:
  assumes "isInitialized opt" "isInitialized (mapping opt)"
    "vsize x0 = nx (dims opt)" "vsize u0 = nu (dims opt)"
    "solver (warm_start opt x0 u0) = Throws e"
  shows "\<exists>r opt'. run solver r_default opt x0 u0 = Inr (r, opt') \<and>
     cmd r = cmd (last_r opt) \<and> retcode r = - 1 \<and> last_r opt' = r"
  using assms by (simp add: run_def Let_def checkOrQuit_def)

theorem run_solver_failure_holds_command_witness:
  "\<exists>r opt'. run failing_solver Result_new optimizer_example (vec_of [1, 1]) (vec_of [4]) = Inr (r, opt') \<and>
     vcoef (cmd r) 0 = 7 \<and> retcode r = - 1 \<and> last_r opt' = r"
proof -
  have ms: "isInitialized mapping_scaled" by code_simp
  have h: "isInitialized optimizer_example" "isInitialized (mapping optimizer_example)"
    "vsize (vec_of [1, 1]) = nx (dims optimizer_example)"
    "vsize (vec_of [4]) = nu (dims optimizer_example)"
    "failing_solver (warm_start optimizer_example (vec_of [1, 1]) (vec_of [4])) = Throws ''nlopt failure''"
    using ms by (simp_all add: optimizer_example_def dims_example_def vec_of_def failing_solver_def)
  have c: "vcoef (cmd (last_r optimizer_example)) 0 = 7"
    by (simp add: optimizer_example_def vec_of_def)
  from run_solver_failure_holds_command[where solver = failing_solver and opt = optimizer_example
      and r_default = Result_new, OF h] c
  show ?thesis by auto
qed

section \<open>Properties of the linear front-end\<close>

lemma setExogenuosInput_stores:
  assumes "isInitialized b" "0 < ph (dims b)"
    "has_shape B (nx (dims b)) (ndu (dims b))" "has_shape D (ny (dims b)) (ndu (dims b))"
  shows "\<exists>b'. setExogenuosInput infty b B D = Inr (True, b') \<and>
     (\<forall>i<nx (dims b). \<forall>j<ndu (dims b). coef (ssBv b') i j = coef B i j) \<and>
     (\<forall>i<ny (dims b). \<forall>j<ndu (dims b). coef (ssDv b') i j = coef D i j)"
  using assms
  by (simp add: setExogenuosInput_def Let_def checkOrQuit_def buildTITerms_def block_assign_simps)

text \<open>
  C9. On an initialised front-end, \<open>setDisturbances(Bd, Dd)\<close> stores in the builder
  the matrices that the names \<open>B\<close> and \<open>D\<close> denote, not its arguments: the top blocks
  of \<open>ssBv\<close> and \<open>ssDv\<close> are \<open>B\<close> and \<open>D\<close>, and the result is the same for any other
  pair of arguments.
\<close>

theorem setDisturbances_forwards_module_symbols:
  assumes "isInitialized lm" "isInitialized (builder lm)" "0 < ph (dims (builder lm))"
    "has_shape B (nx (dims (builder lm))) (ndu (dims (builder lm)))"
    "has_shape D (ny (dims (builder lm))) (ndu (dims (builder lm)))"
  shows "\<exists>b'. setDisturbances infty B D lm Bd Dd = Inr (True, lm\<lparr>builder := b'\<rparr>) \<and>
     (\<forall>i<nx (dims (builder lm)). \<forall>j<ndu (dims (builder lm)). coef (ssBv b') i j = coef B i j) \<and>
     (\<forall>i<ny (dims (builder lm)). \<forall>j<ndu (dims (builder lm)). coef (ssDv b') i j = coef D i j) \<and>
     (\<forall>Bd' Dd'. setDisturbances infty B D lm Bd' Dd' = setDisturbances infty B D lm Bd Dd)"
proof -
  from setExogenuosInput_stores[OF assms(2-5), of infty] obtain b' where
    r: "setExogenuosInput infty (builder lm) B D = Inr (True, b')"
    and s: "\<forall>i<nx (dims (builder lm)). \<forall>j<ndu (dims (builder lm)). coef (ssBv b') i j = coef B i j"
       "\<forall>i<ny (dims (builder lm)). \<forall>j<ndu (dims (builder lm)). coef (ssDv b') i j = coef D i j"
    by blast
  have "setDisturbances infty B D lm Bd Dd = Inr (True, lm\<lparr>builder := b'\<rparr>)"
    using assms(1) r by (simp add: setDisturbances_def checkOrQuit_def)
  moreover have "\<forall>Bd' Dd'. setDisturbances infty B D lm Bd' Dd' = setDisturbances infty B D lm Bd Dd"
    by (simp add: setDisturbances_def)
  ultimately show ?thesis using s by blast
qed

section \<open>The properties at the example states\<close>

lemma builder_example_facts:
  "dims builder_example = dims_scenario1" "isInitialized builder_example"
  by (simp_all add: builder_example_def ProblemBuilder_initialize_def ProblemBuilder_onInit_def
        Let_def)


lemma mapping_scaled_facts:
  "isInitialized mapping_scaled" "dims mapping_scaled = dims_example"
  "vcoef (state_scaling mapping_scaled) 0 = 2" "vcoef (state_scaling mapping_scaled) (Suc 0) = 4"
  by code_simp+

theorem get_equality_bounds_witness:
  "\<exists>p b'. get builder_example (vec_of [1, 2]) (vec_of [0]) (vec_of [0]) (vec_of [0]) (vec_of [0])
             (vec_of [0]) = Inr (p, b') \<and>
     vcoef (prob_l p) 0 = - 1 \<and> vcoef (prob_u p) 0 = - 1 \<and>
     vcoef (prob_l p) 1 = - 2 \<and> vcoef (prob_u p) 1 = - 2 \<and>
     vcoef (prob_l p) 11 = vcoef (prob_u p) 11"
proof -
  have h: "vsize (vec_of [1, 2]) = nx (dims builder_example)"
    "vsize (vec_of [0]) = ny (dims builder_example)" "vsize (vec_of [0]) = nu (dims builder_example)"
    "vsize (vec_of [0]) = nu (dims builder_example)" "vsize (vec_of [0]) = ndu (dims builder_example)"
    by (simp_all add: builder_example_facts dims_scenario1_def vec_of_def)
  from get_equality_bounds[OF h, of "vec_of [0]"] obtain p b' where
    r: "get builder_example (vec_of [1, 2]) (vec_of [0]) (vec_of [0]) (vec_of [0]) (vec_of [0])
             (vec_of [0]) = Inr (p, b')"
    and a: "\<forall>k<nx (dims builder_example). vcoef (prob_l p) k = - vcoef (vec_of [1, 2]) k \<and>
              vcoef (prob_u p) k = - vcoef (vec_of [1, 2]) k"
    and e: "\<forall>k<n_eq (dims builder_example). vcoef (prob_l p) k = vcoef (prob_u p) k"
    by blast
  have "vcoef (prob_l p) 0 = - 1 \<and> vcoef (prob_u p) 0 = - 1"
    using a[rule_format, of 0] by (simp add: builder_example_facts dims_scenario1_def vec_of_def)
  moreover have "vcoef (prob_l p) 1 = - 2 \<and> vcoef (prob_u p) 1 = - 2"
    using a[rule_format, of 1] by (simp add: builder_example_facts dims_scenario1_def vec_of_def)
  moreover have "vcoef (prob_l p) 11 = vcoef (prob_u p) 11"
    using e[rule_format, of 11] by (simp add: builder_example_facts dims_scenario1_def n_eq_def)
  ultimately show ?thesis using r by blast
qed

theorem get_ignores_u0_witness:
  "get builder_example (vec_of [1, 2]) (vec_of [0]) (vec_of [0]) (vec_of [0]) (vec_of [0]) (vec_of [0]) =
   get builder_example (vec_of [1, 2]) (vec_of [5]) (vec_of [0]) (vec_of [0]) (vec_of [0]) (vec_of [0]) \<and>
   \<not> isl (get builder_example (vec_of [1, 2]) (vec_of [5]) (vec_of [0]) (vec_of [0]) (vec_of [0]) (vec_of [0]))"
proof -
  have h: "vsize (vec_of [1, 2]) = nx (dims builder_example)"
    "vsize (vec_of [0]) = ny (dims builder_example)" "vsize (vec_of [0]) = nu (dims builder_example)"
    "vsize (vec_of [0]) = nu (dims builder_example)" "vsize (vec_of [0]) = ndu (dims builder_example)"
    by (simp_all add: builder_example_facts dims_scenario1_def vec_of_def)
  from get_returns[OF h, of "vec_of [5]"] have
    "\<not> isl (get builder_example (vec_of [1, 2]) (vec_of [5]) (vec_of [0]) (vec_of [0]) (vec_of [0]) (vec_of [0]))"
    by auto
  then show ?thesis
    using get_ignores_u0[of builder_example "vec_of [1, 2]" "vec_of [0]" "vec_of [0]" "vec_of [0]"
        "vec_of [0]" "vec_of [0]" "vec_of [5]"]
    by simp
qed

theorem buildTITerms_rate_bounds_witness:
  "\<exists>b'. buildTITerms 1000 builder_example = Inr (True, b') \<and>
     vcoef (lineq b') 18 = 0 \<and> vcoef (uineq b') 18 = 0 \<and>
     vcoef (lineq b') 17 = - 1000 \<and> vcoef (uineq b') 17 = 1000"
proof -
  have h2: "2 < ph (dims builder_example)" and h1: "1 < ph (dims builder_example)"
    and h0: "0 < nu (dims builder_example)"
    by (simp_all add: builder_example_facts dims_scenario1_def)
  from buildTITerms_rate_bounds[OF h2 h0, of 1000] obtain b' where
    r: "buildTITerms 1000 builder_example = Inr (True, b')"
    and a: "vcoef (lineq b') 18 = 0" "vcoef (uineq b') 18 = 0"
    by (auto simp: builder_example_facts dims_scenario1_def n_eq_def)
  from buildTITerms_rate_bounds[OF h1 h0, of 1000] r
  have "vcoef (lineq b') 17 = - 1000" "vcoef (uineq b') 17 = 1000"
    by (auto simp: builder_example_facts dims_scenario1_def n_eq_def)
  then show ?thesis using r a by blast
qed






theorem setDisturbances_forwards_module_symbols_witness:
  "\<exists>b'. setDisturbances 1000 (mat_of 1 [[7], [8]]) (mat_of 1 [[9]]) lmpc_example
            (mat_of 1 [[1], [2]]) (mat_of 1 [[3]]) = Inr (True, lmpc_example\<lparr>builder := b'\<rparr>) \<and>
     coef (ssBv b') 0 0 = 7 \<and> coef (ssBv b') 1 0 = 8 \<and> coef (ssDv b') 0 0 = 9"
proof -
  have bl: "builder lmpc_example = builder_example" by (simp add: lmpc_example_def)
  have h: "isInitialized lmpc_example" "isInitialized (builder lmpc_example)"
    "0 < ph (dims (builder lmpc_example))"
    "has_shape (mat_of 1 [[7], [8]]) (nx (dims (builder lmpc_example))) (ndu (dims (builder lmpc_example)))"
    "has_shape (mat_of 1 [[9]]) (ny (dims (builder lmpc_example))) (ndu (dims (builder lmpc_example)))"
    by (simp_all add: bl builder_example_facts dims_scenario1_def has_shape_def mat_of_def
          lmpc_example_def)
  from setDisturbances_forwards_module_symbols[OF h, of 1000 "mat_of 1 [[1], [2]]" "mat_of 1 [[3]]"]
  obtain b' where
    r: "setDisturbances 1000 (mat_of 1 [[7], [8]]) (mat_of 1 [[9]]) lmpc_example
            (mat_of 1 [[1], [2]]) (mat_of 1 [[3]]) = Inr (True, lmpc_example\<lparr>builder := b'\<rparr>)"
    and a: "\<forall>i<nx (dims (builder lmpc_example)). \<forall>j<ndu (dims (builder lmpc_example)).
              coef (ssBv b') i j = coef (mat_of 1 [[7], [8]]) i j"
    and d: "\<forall>i<ny (dims (builder lmpc_example)). \<forall>j<ndu (dims (builder lmpc_example)).
              coef (ssDv b') i j = coef (mat_of 1 [[9]]) i j"
    by blast
  have "coef (ssBv b') 0 0 = 7" "coef (ssBv b') 1 0 = 8"
    using a[rule_format, of 0 0] a[rule_format, of 1 0]
    by (simp_all add: bl builder_example_facts dims_scenario1_def mat_of_def)
  moreover have "coef (ssDv b') 0 0 = 9"
    using d[rule_format, of 0 0]
    by (simp add: bl builder_example_facts dims_scenario1_def mat_of_def)
  ultimately show ?thesis using r by blast
qed

theorem unwrapVector_trajectories_witness:
  "\<exists>X U s. unwrap_example = Inr (X, U, s) \<and>
     coef X 0 0 = 1 * 2 \<and> coef X 0 1 = 1 * 4 \<and> coef X 1 0 = 3 * 2 \<and> coef X 3 1 = 5 * 4 \<and>
     coef U 3 0 = coef U 2 0 \<and> s = 1 / 2"
proof -
  have h: "isInitialized mapping_scaled"
    "vsize flat_example = ph (dims mapping_scaled) * nx (dims mapping_scaled) +
        nu (dims mapping_scaled) * ch (dims mapping_scaled) + 1"
    "vsize (vec_of [1, 1]) = nx (dims mapping_scaled)" "0 < ph (dims mapping_scaled)"
    "has_shape (resize_m 4 2 empty_m) (ph (dims mapping_scaled) + 1) (nx (dims mapping_scaled))"
    "has_shape (resize_m 4 1 empty_m) (ph (dims mapping_scaled) + 1) (nu (dims mapping_scaled))"
    by (simp_all add: mapping_scaled_facts dims_example_def flat_example_def vec_of_def
          has_shape_def resize_m_def)
  from unwrapVector_trajectories[OF h] obtain X U s where
    r: "unwrap_example = Inr (X, U, s)"
    and x0: "\<forall>j<nx (dims mapping_scaled).
        coef X 0 j = vcoef (vec_of [1, 1]) j / (1 / vcoef (state_scaling mapping_scaled) j) \<and>
        coef X 0 j = vcoef (vec_of [1, 1]) j * vcoef (state_scaling mapping_scaled) j"
    and xi: "\<forall>i j. 1 \<le> i \<and> i \<le> ph (dims mapping_scaled) \<and> j < nx (dims mapping_scaled) \<longrightarrow>
        coef X i j = vcoef flat_example ((i - 1) * nx (dims mapping_scaled) + j) /
                       (1 / vcoef (state_scaling mapping_scaled) j) \<and>
        coef X i j = vcoef flat_example ((i - 1) * nx (dims mapping_scaled) + j) *
                       vcoef (state_scaling mapping_scaled) j"
    and ul: "\<forall>j<nu (dims mapping_scaled). coef U (ph (dims mapping_scaled)) j =
               coef U (ph (dims mapping_scaled) - 1) j"
    and sl: "s = vcoef flat_example (ph (dims mapping_scaled) * nx (dims mapping_scaled) +
               nu (dims mapping_scaled) * ch (dims mapping_scaled))"
    unfolding unwrap_example_def by blast
  have "coef X 0 0 = 1 * 2" "coef X 0 1 = 1 * 4"
    using x0[rule_format, of 0] x0[rule_format, of 1]
    by (simp_all add: mapping_scaled_facts dims_example_def vec_of_def)
  moreover have "coef X 1 0 = 3 * 2" "coef X 3 1 = 5 * 4"
    using xi[rule_format, of 1 0] xi[rule_format, of 3 1]
    by (simp_all add: mapping_scaled_facts dims_example_def vec_of_def flat_example_def)
  moreover have "coef U 3 0 = coef U 2 0"
    using ul[rule_format, of 0] by (simp add: mapping_scaled_facts dims_example_def)
  moreover have "s = 1 / 2"
    using sl by (simp add: mapping_scaled_facts dims_example_def vec_of_def flat_example_def)
  ultimately show ?thesis using r by blast
qed

text \<open>
  C5 as stated fails at \<open>mapping_scaled\<close>, whose state scaling is \<open>(2, 4)\<close>, with
  \<open>x0 = (1, 1)\<close> and \<open>flat_example\<close>: entry \<open>(0, 0)\<close> of the state trajectory is 2,
  not \<open>x0(0) = 1\<close>, and entry \<open>(1, 0)\<close> is 6, not the first entry of the flat vector
  times the inverse scaling, \<open>3 / 2\<close>.
\<close>

theorem unwrapVector_descaling_counterexample:
  "isInitialized mapping_scaled \<and> vsize flat_example = 9 \<and> \<not> isl unwrap_example \<and>
   vcoef (state_scaling mapping_scaled) 0 = 2 \<and>
   coef (fst (projr unwrap_example)) 0 0 = 2 \<and> vcoef (vec_of [1, 1]) 0 = 1 \<and>
   coef (fst (projr unwrap_example)) 0 0 \<noteq> vcoef (vec_of [1, 1]) 0 \<and>
   coef (fst (projr unwrap_example)) 1 0 = 6 \<and>
   vcoef flat_example 0 * (1 / vcoef (state_scaling mapping_scaled) 0) = 3 / 2 \<and>
   coef (fst (projr unwrap_example)) 1 0 \<noteq>
     vcoef flat_example 0 * (1 / vcoef (state_scaling mapping_scaled) 0)"
  by code_simp

text \<open>
  C2. The claim is that each call of \<open>get\<close> recomputes \<open>l\<close> and \<open>u\<close> from scratch, so
  that their output rows are \<open>minY\<close> and \<open>maxY\<close> minus \<open>ssDv \<cdot> uMeas\<close> and two calls with
  the same arguments return the same problem. On \<open>disturbed_builder\<close>, where
  \<open>minY = maxY = 0\<close> and \<open>ssDv \<cdot> uMeas = 1\<close>, the first call returns \<open>-1\<close> in output row
  24 of \<open>l\<close> and of \<open>u\<close>, and the second call, with the same arguments, returns \<open>-2\<close>:
  \<open>get\<close> subtracts the disturbance in place from the members \<open>lineq\<close> and \<open>uineq\<close>,
  which only \<open>buildTITerms\<close> sets.
\<close>

theorem get_accumulates_disturbance:
  "\<not> isl first_get \<and> \<not> isl second_get \<and>
   coef (minY disturbed_builder) 0 0 = 0 \<and> coef (maxY disturbed_builder) 0 0 = 0 \<and>
   vcoef (mult_v (ssDv disturbed_builder) (vec_of [1])) 0 = 1 \<and>
   vcoef (prob_l (fst (projr first_get))) 24 = - 1 \<and>
   vcoef (prob_u (fst (projr first_get))) 24 = - 1 \<and>
   vcoef (prob_l (fst (projr second_get))) 24 = - 2 \<and>
   vcoef (prob_u (fst (projr second_get))) 24 = - 2"
  by code_simp

theorem get_accumulates_disturbance_witness:
  "vcoef (prob_l (fst (projr second_get))) 24 \<noteq> vcoef (prob_l (fst (projr first_get))) 24 \<and>
   vcoef (prob_u (fst (projr second_get))) 24 \<noteq> vcoef (prob_u (fst (projr first_get))) 24"
  using get_accumulates_disturbance by simp

end
